theory Spec2Isabelle
  imports Complex_Main "HOL-Library.Log_Nat"
begin

section \<open>CarbonChain: swap pricing and the wallet ledger\<close>

text \<open>
  The development embeds the contract and service classes of the CarbonChain client:
  \<^verbatim>\<open>MarketDataService\<close>, \<open>TransactionManager\<close>, \<open>IPFSService\<close>, \<open>tCO2TokenContract\<close>,
  \<open>MarketplaceContract\<close> and \<open>StakingContract\<close>, and the trade handler \<open>executeBuyTrade\<close>
  of the page script.

  Numbers. A JavaScript number is an IEEE-754 double, and the arithmetic of the source is
  read twice. The first reading takes a number for an exact rational (\<^typ>\<open>rat\<close>): \<open>+\<close>,
  \<open>-\<close>, \<open>*\<close> and \<open>/\<close> are the exact operations, and a division whose divisor is zero,
  which gives \<open>NaN\<close> or an infinity in JavaScript, is marked \<open>NonFinite\<close>. It serves the
  properties that rest on the order of the checks and the assignments. The second reading
  (the constants named \<open>_f64\<close>) is double arithmetic itself: every operation is rounded
  to the nearest double, ties to even, with gradual underflow and overflow to the
  infinities, and \<open>NaN\<close> and the infinities are values like the others. It serves the
  properties that rest on the value computed. \<open>parseFloat\<close> applied to a number gives
  the number back.

  Environment. \<open>Date.now()\<close>, \<open>new Date()\<close> and \<open>Math.random()\<close> are inputs: every
  operation that draws an identifier, a timestamp or a hash takes them as a parameter.
  The awaited delays (\<open>simulateTransaction\<close>) do nothing but wait and are left out.
\<close>

subsection \<open>Numbers\<close>

datatype jsnum = Finite rat | NonFinite

definition js_div :: "rat \<Rightarrow> rat \<Rightarrow> jsnum" where
  "js_div a b = (if b = 0 then NonFinite else Finite (a / b))"

text \<open>
  \<open>x.toFixed(2)\<close>: the decimal string with two fraction digits of the integer number of
  hundredths nearest to \<open>x\<close>, the larger in magnitude on a tie; the string is represented
  by that integer. From \<open>10^21\<close> on \<open>toFixed\<close> gives the exponent notation of \<open>x\<close> instead,
  and for a non-finite number its name.
\<close>

datatype fixed2 = Hundredths int | Exponential rat | NonFiniteText

definition toFixed2 :: "rat \<Rightarrow> fixed2" where
  "toFixed2 x =
     (if 10 ^ 21 \<le> \<bar>x\<bar> then Exponential x
      else if x < 0 then Hundredths (- \<lfloor>(- x) * 100 + 1 / 2\<rfloor>)
      else Hundredths \<lfloor>x * 100 + 1 / 2\<rfloor>)"

definition toFixed2_js :: "jsnum \<Rightarrow> fixed2" where
  "toFixed2_js v = (case v of Finite x \<Rightarrow> toFixed2 x | NonFinite \<Rightarrow> NonFiniteText)"

subsection \<open>Errors and outcomes\<close>

text \<open>
  The source throws \<open>new Error(message)\<close>; each message is one constructor:
  \<open>'Please connect your wallet first'\<close> is \<open>NotConnected\<close>,
  \<open>'Insufficient tCO2 balance'\<close> is \<open>InsufficientBalance\<close>,
  \<open>'Insufficient staked balance'\<close> is \<open>InsufficientStakedBalance\<close>,
  \<open>'No rewards to claim'\<close> is \<open>NothingToClaim\<close>.
  \<open>StorageUnavailable\<close> is the rejection of an upload by the content store.
  \<open>InvalidAmount\<close> and \<open>InvalidReserves\<close> are error kinds of the specification; no
  \<open>throw\<close> of the contract or service classes produces them.
\<close>

datatype error =
    NotConnected
  | InvalidAmount
  | InvalidReserves
  | InsufficientBalance
  | InsufficientStakedBalance
  | NothingToClaim
  | StorageUnavailable

subsection \<open>MarketDataService\<close>

text \<open>
  \<^verbatim>\<open>
  calculateSwapOutput(inputAmount, inputReserve, outputReserve, fee = 0.003) {
    const inputAmountWithFee = inputAmount * (1 - fee);
    const numerator = inputAmountWithFee * outputReserve;
    const denominator = inputReserve + inputAmountWithFee;
    return numerator / denominator;
  }
  \<close>
  The body has no \<open>throw\<close>: every call returns (\<open>Inr\<close>).
\<close>

definition default_fee :: rat where
  "default_fee = 3 / 1000"

definition calculateSwapOutput :: "rat \<Rightarrow> rat \<Rightarrow> rat \<Rightarrow> rat \<Rightarrow> error + jsnum" where
  "calculateSwapOutput inputAmount inputReserve outputReserve fee =
     (let inputAmountWithFee = inputAmount * (1 - fee);
          numerator = inputAmountWithFee * outputReserve;
          denominator = inputReserve + inputAmountWithFee
      in Inr (js_div numerator denominator))"

record reserves =
  tCO2 :: rat
  USDT :: rat

definition getPoolReserves :: reserves where
  "getPoolReserves = \<lparr>tCO2 = 1000000, USDT = 15500000\<rparr>"

subsection \<open>TransactionManager\<close>

text \<open>
  A transaction object: the fields \<open>id\<close> and \<open>timestamp\<close> that \<open>addTransaction\<close> draws, and
  the object the caller passed (\<open>...tx\<close>): its \<open>type\<close>, the fields particular to the type,
  \<open>status\<close> and \<open>hash\<close>.
\<close>

datatype tx_details =
    MintDetails rat string
  | RetireDetails rat string
  | SwapDetails rat string fixed2 string fixed2
  | StakeDetails rat nat
  | AmountDetails rat

record tx_body =
  tx_type :: string
  details :: tx_details
  status :: string
  hash :: string

record transaction =
  tx_id :: string
  timestamp :: string
  body :: tx_body

text \<open>What one operation draws from the clock and the random source.\<close>

record stamp =
  new_id :: string
  now :: string
  new_hash :: string

subsection \<open>Retirement certificates and the content store\<close>

record certificate =
  cert_id :: string
  cert_amount :: rat
  cert_date :: string
  cert_wallet :: "string option"
  cert_reason :: string
  ipfsHash :: "string option"

record ipfs_result =
  cid :: string
  url :: string
  data :: certificate

text \<open>
  The content store as \<open>burn\<close> sees it: \<open>await ipfsService.upload(certificate)\<close> either
  resolves with a result or rejects, and a rejection is thrown at the \<open>await\<close>.
\<close>

type_synonym uploader = "certificate \<Rightarrow> error + ipfs_result"

text \<open>
  \<^verbatim>\<open>
  async upload(data) {
    await new Promise(resolve => setTimeout(resolve, 1000));
    const mockCID = 'Qm' + Math.random().toString(36).substr(2, 44);
    return { cid: mockCID, url: `https://ipfs.io/ipfs/${mockCID}`, data: data };
  }
  \<close>
  The mock store of the repository; \<open>r\<close> is the random suffix. It never rejects.
\<close>

definition IPFSService_upload :: "string \<Rightarrow> uploader" where
  "IPFSService_upload r d =
     (let mockCID = ''Qm'' @ r
      in Inr \<lparr>cid = mockCID, url = ''https://ipfs.io/ipfs/'' @ mockCID, data = d\<rparr>)"

subsection \<open>Application state\<close>

text \<open>
  \<open>connected\<close> and \<open>address\<close> are the fields of the \<open>WalletManager\<close>; the balances are
  \<open>AppState.wallet\<close>, the totals \<open>AppState.stats\<close>; \<open>transactions\<close> is the array shared by
  the \<open>TransactionManager\<close> and \<open>AppState\<close>, newest first, as is \<open>retirements\<close>.
\<close>

record app_state =
  connected :: bool
  address :: "string option"
  tCO2Balance :: rat
  stakedBalance :: rat
  rewards :: rat
  totalMinted :: rat
  totalRetired :: rat
  totalStaked :: rat
  transactions :: "transaction list"
  retirements :: "certificate list"

text \<open>
  How a call ends: it returns a value, or it throws; both leave a state behind. The third
  case is a call whose arithmetic left the finite numbers.
\<close>

datatype 'r outcome =
    Returned 'r app_state
  | Threw error app_state
  | NonFiniteArithmetic

definition addTransaction :: "stamp \<Rightarrow> tx_body \<Rightarrow> app_state \<Rightarrow> transaction \<times> app_state" where
  "addTransaction env tx st =
     (let t = \<lparr>tx_id = new_id env, timestamp = now env, body = tx\<rparr>
      in (t, st\<lparr>transactions := t # transactions st\<rparr>))"

subsection \<open>tCO2TokenContract\<close>

definition mint :: "string \<Rightarrow> rat \<Rightarrow> stamp \<Rightarrow> app_state \<Rightarrow> transaction outcome" where
  "mint projectId amount env st =
     (if \<not> connected st then Threw NotConnected st
      else
        let st1 = st\<lparr>tCO2Balance := tCO2Balance st + amount\<rparr>;
            st2 = st1\<lparr>totalMinted := totalMinted st1 + amount\<rparr>;
            (tx, st3) = addTransaction env
              \<lparr>tx_type = ''mint'', details = MintDetails amount projectId,
               status = ''completed'', hash = new_hash env\<rparr> st2
        in Returned tx st3)"

text \<open>
  \<open>burn(amount, reason)\<close>: the two checks, then the debit, then the certificate and its
  upload, then the certificate is stored and the transaction recorded. \<open>cid_new\<close> and
  \<open>date\<close> are the certificate identifier and date the call draws. An upload that rejects
  is caught, logged and thrown again; the state is the one reached at the \<open>await\<close>.
\<close>

definition burn ::
  "rat \<Rightarrow> string \<Rightarrow> string \<Rightarrow> string \<Rightarrow> uploader \<Rightarrow> stamp \<Rightarrow> app_state
     \<Rightarrow> (transaction \<times> certificate) outcome" where
  "burn amount reason cid_new date upload env st =
     (if \<not> connected st then Threw NotConnected st
      else if tCO2Balance st < amount then Threw InsufficientBalance st
      else
        let st1 = st\<lparr>tCO2Balance := tCO2Balance st - amount\<rparr>;
            st2 = st1\<lparr>totalRetired := totalRetired st1 + amount\<rparr>;
            cert = \<lparr>cert_id = cid_new, cert_amount = amount, cert_date = date,
                    cert_wallet = address st2, cert_reason = reason, ipfsHash = None\<rparr>
        in case upload cert of
             Inl e \<Rightarrow> Threw e st2
           | Inr ipfsResult \<Rightarrow>
               let cert' = cert\<lparr>ipfsHash := Some (cid ipfsResult)\<rparr>;
                   st3 = st2\<lparr>retirements := cert' # retirements st2\<rparr>;
                   (tx, st4) = addTransaction env
                     \<lparr>tx_type = ''retire'', details = RetireDetails amount (cert_id cert'),
                      status = ''completed'', hash = new_hash env\<rparr> st3
               in Returned (tx, cert') st4)"

subsection \<open>MarketplaceContract\<close>

text \<open>
  \<open>swapUSDTForTCO2(usdtAmount, slippage)\<close>: the connection check, the quote against the
  pool reserves, \<open>minOutput\<close> (computed, used nowhere), the credit, the record.
\<close>

definition swapUSDTForTCO2 ::
  "rat \<Rightarrow> rat \<Rightarrow> stamp \<Rightarrow> app_state \<Rightarrow> (transaction \<times> rat) outcome" where
  "swapUSDTForTCO2 usdtAmount slippage env st =
     (if \<not> connected st then Threw NotConnected st
      else
        let reserves = getPoolReserves
        in case calculateSwapOutput usdtAmount (USDT reserves) (tCO2 reserves) default_fee of
             Inl e \<Rightarrow> Threw e st
           | Inr NonFinite \<Rightarrow> NonFiniteArithmetic
           | Inr (Finite tCO2Output) \<Rightarrow>
               let minOutput = tCO2Output * (1 - slippage / 100);
                   st1 = st\<lparr>tCO2Balance := tCO2Balance st + tCO2Output\<rparr>;
                   (tx, st2) = addTransaction env
                     \<lparr>tx_type = ''buy'',
                      details = SwapDetails usdtAmount ''USDT'' (toFixed2 tCO2Output) ''tCO2''
                                  (toFixed2_js (js_div usdtAmount tCO2Output)),
                      status = ''completed'', hash = new_hash env\<rparr> st1
               in Returned (tx, tCO2Output) st2)"

definition swapTCO2ForUSDT ::
  "rat \<Rightarrow> rat \<Rightarrow> stamp \<Rightarrow> app_state \<Rightarrow> (transaction \<times> rat) outcome" where
  "swapTCO2ForUSDT tCO2Amount slippage env st =
     (if \<not> connected st then Threw NotConnected st
      else if tCO2Balance st < tCO2Amount then Threw InsufficientBalance st
      else
        let reserves = getPoolReserves
        in case calculateSwapOutput tCO2Amount (tCO2 reserves) (USDT reserves) default_fee of
             Inl e \<Rightarrow> Threw e st
           | Inr NonFinite \<Rightarrow> NonFiniteArithmetic
           | Inr (Finite usdtOutput) \<Rightarrow>
               let minOutput = usdtOutput * (1 - slippage / 100);
                   st1 = st\<lparr>tCO2Balance := tCO2Balance st - tCO2Amount\<rparr>;
                   (tx, st2) = addTransaction env
                     \<lparr>tx_type = ''sell'',
                      details = SwapDetails tCO2Amount ''tCO2'' (toFixed2 usdtOutput) ''USDT''
                                  (toFixed2_js (js_div usdtOutput tCO2Amount)),
                      status = ''completed'', hash = new_hash env\<rparr> st1
               in Returned (tx, usdtOutput) st2)"

subsection \<open>StakingContract\<close>

definition apy :: nat where
  "apy = 12"

definition stake :: "rat \<Rightarrow> stamp \<Rightarrow> app_state \<Rightarrow> transaction outcome" where
  "stake amount env st =
     (if \<not> connected st then Threw NotConnected st
      else if tCO2Balance st < amount then Threw InsufficientBalance st
      else
        let st1 = st\<lparr>tCO2Balance := tCO2Balance st - amount\<rparr>;
            st2 = st1\<lparr>stakedBalance := stakedBalance st1 + amount\<rparr>;
            st3 = st2\<lparr>totalStaked := totalStaked st2 + amount\<rparr>;
            (tx, st4) = addTransaction env
              \<lparr>tx_type = ''stake'', details = StakeDetails amount apy,
               status = ''completed'', hash = new_hash env\<rparr> st3
        in Returned tx st4)"

definition unstake :: "rat \<Rightarrow> stamp \<Rightarrow> app_state \<Rightarrow> transaction outcome" where
  "unstake amount env st =
     (if \<not> connected st then Threw NotConnected st
      else if stakedBalance st < amount then Threw InsufficientStakedBalance st
      else
        let st1 = st\<lparr>stakedBalance := stakedBalance st - amount\<rparr>;
            st2 = st1\<lparr>tCO2Balance := tCO2Balance st1 + amount\<rparr>;
            st3 = st2\<lparr>totalStaked := totalStaked st2 - amount\<rparr>;
            (tx, st4) = addTransaction env
              \<lparr>tx_type = ''unstake'', details = AmountDetails amount,
               status = ''completed'', hash = new_hash env\<rparr> st3
        in Returned tx st4)"

definition claimRewards :: "stamp \<Rightarrow> app_state \<Rightarrow> transaction outcome" where
  "claimRewards env st =
     (if \<not> connected st then Threw NotConnected st
      else
        let r = rewards st
        in if r \<le> 0 then Threw NothingToClaim st
           else
             let st1 = st\<lparr>tCO2Balance := tCO2Balance st + r\<rparr>;
                 st2 = st1\<lparr>rewards := 0\<rparr>;
                 (tx, st3) = addTransaction env
                   \<lparr>tx_type = ''claim_rewards'', details = AmountDetails r,
                    status = ''completed'', hash = new_hash env\<rparr> st2
             in Returned tx st3)"

subsection \<open>Sequences of calls\<close>

datatype call =
    Mint string rat stamp
  | Burn rat string string string uploader stamp
  | Buy rat rat stamp
  | Sell rat rat stamp
  | Stake rat stamp
  | Unstake rat stamp
  | ClaimRewards stamp

text \<open>The state a call leaves behind, whether it returned or threw.\<close>

fun state_after :: "'r outcome \<Rightarrow> app_state option" where
  "state_after (Returned r st) = Some st"
| "state_after (Threw e st) = Some st"
| "state_after NonFiniteArithmetic = None"

fun exec :: "call \<Rightarrow> app_state \<Rightarrow> app_state option" where
  "exec (Mint projectId amount env) st = state_after (mint projectId amount env st)"
| "exec (Burn amount reason cid_new date upload env) st =
     state_after (burn amount reason cid_new date upload env st)"
| "exec (Buy amount slippage env) st = state_after (swapUSDTForTCO2 amount slippage env st)"
| "exec (Sell amount slippage env) st = state_after (swapTCO2ForUSDT amount slippage env st)"
| "exec (Stake amount env) st = state_after (stake amount env st)"
| "exec (Unstake amount env) st = state_after (unstake amount env st)"
| "exec (ClaimRewards env) st = state_after (claimRewards env st)"

text \<open>The states observed after each call of a sequence, in order.\<close>

fun run :: "call list \<Rightarrow> app_state \<Rightarrow> app_state list option" where
  "run [] st = Some []"
| "run (c # cs) st =
     (case exec c st of
        None \<Rightarrow> None
      | Some st' \<Rightarrow> (case run cs st' of None \<Rightarrow> None | Some sts \<Rightarrow> Some (st' # sts)))"

fun amount_of :: "call \<Rightarrow> rat option" where
  "amount_of (Mint projectId amount env) = Some amount"
| "amount_of (Burn amount reason cid_new date upload env) = Some amount"
| "amount_of (Buy amount slippage env) = Some amount"
| "amount_of (Sell amount slippage env) = Some amount"
| "amount_of (Stake amount env) = Some amount"
| "amount_of (Unstake amount env) = Some amount"
| "amount_of (ClaimRewards env) = None"

definition positive_amount :: "call \<Rightarrow> bool" where
  "positive_amount c = (case amount_of c of None \<Rightarrow> True | Some a \<Rightarrow> 0 < a)"

definition balances_nonneg :: "app_state \<Rightarrow> bool" where
  "balances_nonneg st = (0 \<le> tCO2Balance st \<and> 0 \<le> stakedBalance st \<and> 0 \<le> rewards st)"

text \<open>The wallet as \<open>AppState\<close> declares it and \<open>disconnect\<close> resets it.\<close>

definition initial_state :: app_state where
  "initial_state =
     \<lparr>connected = False, address = None, tCO2Balance = 0, stakedBalance = 0, rewards = 0,
      totalMinted = 0, totalRetired = 0, totalStaked = 0, transactions = [], retirements = []\<rparr>"

subsection \<open>Concrete data\<close>

text \<open>A stamp, a connected wallet with given balances, a store that rejects, a call sequence.\<close>

definition example_stamp :: stamp where
  "example_stamp =
     \<lparr>new_id = ''tx-1'', now = ''2024-01-01T00:00:00.000Z'', new_hash = ''0xab''\<rparr>"

definition example_wallet :: "rat \<Rightarrow> rat \<Rightarrow> rat \<Rightarrow> app_state" where
  "example_wallet liquid staked pending =
     initial_state\<lparr>connected := True, address := Some ''0xabc'',
       tCO2Balance := liquid, stakedBalance := staked, rewards := pending\<rparr>"

definition failing_store :: uploader where
  "failing_store cert = Inl StorageUnavailable"

definition example_calls :: "call list" where
  "example_calls =
     [Mint ''proj-1'' 50 example_stamp, Buy 1000 (1 / 10) example_stamp, Stake 30 example_stamp,
      Sell 20 (1 / 10) example_stamp, Unstake 10 example_stamp, ClaimRewards example_stamp,
      Burn 5 ''offset'' ''POR-1'' ''2024-01-01'' failing_store example_stamp]"

section \<open>Double arithmetic\<close>

text \<open>
  A double is a finite rational of the binary64 grid, an infinity or \<open>NaN\<close>. The two
  zeros of the format are the one value \<open>Fin 0\<close>: they differ as divisors and in the
  sign that \<open>toFixed\<close> prints, nowhere else. In \<open>calculateSwapOutput\<close> a zero divisor
  under a dividend that is not zero is the sum of two numbers that cancel, which is \<open>+0\<close>;
  \<open>fdiv\<close> reads every zero divisor so.
\<close>

datatype f64 = Fin rat | PInf | NInf | NaN

text \<open>
  \<open>round64 x\<close> is the double nearest to the rational \<open>x\<close>, ties to even: with \<open>e\<close> the
  binary exponent of \<open>\<bar>x\<bar>\<close>, not below \<open>-1022\<close> where the subnormal numbers begin, the
  result is the multiple of \<open>2 powi (e - 52)\<close> nearest to \<open>\<bar>x\<bar>\<close>, with the sign of \<open>x\<close>;
  a result of \<open>2 powi 1024\<close> or more is an infinity.
\<close>

definition round_half_even :: "rat \<Rightarrow> int" where
  "round_half_even t =
     (let n = \<lfloor>t\<rfloor>; r = t - of_int n
      in if r < 1 / 2 then n else if 1 / 2 < r then n + 1 else if even n then n else n + 1)"

definition ilog2 :: "rat \<Rightarrow> int" where
  "ilog2 a =
     (let (p, q) = quotient_of a; g = bitlen p - bitlen q
      in if 2 powi g \<le> a then g else g - 1)"

definition round64_mag :: "rat \<Rightarrow> rat option" where
  "round64_mag a =
     (let e = max (ilog2 a) (- 1022);
          q = 2 powi (e - 52);
          m = round_half_even (a / q)
      in if 1023 < e \<or> (e = 1023 \<and> 2 ^ 53 \<le> m) then None else Some (of_int m * q))"

definition round64 :: "rat \<Rightarrow> f64" where
  "round64 x =
     (if x = 0 then Fin 0
      else case round64_mag \<bar>x\<bar> of
             None \<Rightarrow> (if 0 < x then PInf else NInf)
           | Some y \<Rightarrow> Fin (if 0 < x then y else - y))"

text \<open>
  The operators \<open>+\<close>, \<open>-\<close>, \<open>*\<close>, \<open>/\<close>, \<open><\<close> and \<open><=\<close> of JavaScript on doubles: the exact
  result of two finite operands is rounded; the infinities and \<open>NaN\<close> follow IEEE-754.
\<close>

fun fneg :: "f64 \<Rightarrow> f64" where
  "fneg (Fin a) = Fin (- a)"
| "fneg PInf = NInf"
| "fneg NInf = PInf"
| "fneg NaN = NaN"

fun fadd :: "f64 \<Rightarrow> f64 \<Rightarrow> f64" where
  "fadd (Fin a) (Fin b) = round64 (a + b)"
| "fadd NaN y = NaN"
| "fadd x NaN = NaN"
| "fadd PInf NInf = NaN"
| "fadd NInf PInf = NaN"
| "fadd PInf y = PInf"
| "fadd NInf y = NInf"
| "fadd x PInf = PInf"
| "fadd x NInf = NInf"

definition fsub :: "f64 \<Rightarrow> f64 \<Rightarrow> f64" where
  "fsub x y = fadd x (fneg y)"

fun fmul :: "f64 \<Rightarrow> f64 \<Rightarrow> f64" where
  "fmul (Fin a) (Fin b) = round64 (a * b)"
| "fmul NaN y = NaN"
| "fmul x NaN = NaN"
| "fmul (Fin a) PInf = (if a = 0 then NaN else if 0 < a then PInf else NInf)"
| "fmul (Fin a) NInf = (if a = 0 then NaN else if 0 < a then NInf else PInf)"
| "fmul PInf (Fin b) = (if b = 0 then NaN else if 0 < b then PInf else NInf)"
| "fmul NInf (Fin b) = (if b = 0 then NaN else if 0 < b then NInf else PInf)"
| "fmul PInf PInf = PInf"
| "fmul PInf NInf = NInf"
| "fmul NInf PInf = NInf"
| "fmul NInf NInf = PInf"

fun fdiv :: "f64 \<Rightarrow> f64 \<Rightarrow> f64" where
  "fdiv (Fin a) (Fin b) =
     (if b = 0 then (if a = 0 then NaN else if 0 < a then PInf else NInf)
      else round64 (a / b))"
| "fdiv NaN y = NaN"
| "fdiv x NaN = NaN"
| "fdiv (Fin a) PInf = Fin 0"
| "fdiv (Fin a) NInf = Fin 0"
| "fdiv PInf (Fin b) = (if b < 0 then NInf else PInf)"
| "fdiv NInf (Fin b) = (if b < 0 then PInf else NInf)"
| "fdiv PInf PInf = NaN"
| "fdiv PInf NInf = NaN"
| "fdiv NInf PInf = NaN"
| "fdiv NInf NInf = NaN"


fun fle :: "f64 \<Rightarrow> f64 \<Rightarrow> bool" where
  "fle (Fin a) (Fin b) = (a \<le> b)"
| "fle NaN y = False"
| "fle x NaN = False"
| "fle NInf y = True"
| "fle x PInf = True"
| "fle PInf y = False"
| "fle x NInf = False"

text \<open>
  The literal \<open>0.003\<close> is the double nearest to \<open>3 / 1000\<close>. \<open>c64\<close> is the double that
  \<open>1 - 0.003\<close> evaluates to, and \<open>u64\<close> the unit roundoff \<open>2 powi (- 53)\<close>.
\<close>

definition fee_f64 :: f64 where
  "fee_f64 = round64 (3 / 1000)"

definition c64 :: rat where
  "c64 = 8980177656976769 / 9007199254740992"

definition u64 :: rat where
  "u64 = 1 / 2 ^ 53"

subsection \<open>MarketDataService in doubles\<close>

text \<open>
  \<open>calculateSwapOutput\<close> with its four operations, and the subtraction \<open>1 - fee\<close>, each
  rounded. The body has no \<open>throw\<close>.
\<close>

definition calculateSwapOutput_f64 :: "f64 \<Rightarrow> f64 \<Rightarrow> f64 \<Rightarrow> f64 \<Rightarrow> error + f64" where
  "calculateSwapOutput_f64 inputAmount inputReserve outputReserve fee =
     (let inputAmountWithFee = fmul inputAmount (fsub (Fin 1) fee);
          numerator = fmul inputAmountWithFee outputReserve;
          denominator = fadd inputReserve inputAmountWithFee
      in Inr (fdiv numerator denominator))"

subsection \<open>The wallet in doubles\<close>

text \<open>
  The part of \<open>AppState\<close> and of the \<open>WalletManager\<close> that \<open>swapUSDTForTCO2\<close>, \<open>stake\<close> and
  \<open>unstake\<close> read or write, with doubles for the balances, and the transaction objects
  these three record. \<open>toFixed(2)\<close> of a finite double is \<open>toFixed2\<close> of its value (the
  string \<open>-0.00\<close> of a negative value that rounds to zero is the number of hundredths 0),
  of a non-finite one its name, all three \<open>NonFiniteText\<close>. A call returns or throws; both leave a wallet behind.
\<close>

definition toFixed2_f64 :: "f64 \<Rightarrow> fixed2" where
  "toFixed2_f64 v = (case v of Fin x \<Rightarrow> toFixed2 x | _ \<Rightarrow> NonFiniteText)"

datatype tx_details_f64 =
    SwapDetails_f64 f64 string fixed2 string fixed2
  | StakeDetails_f64 f64 nat
  | AmountDetails_f64 f64

record tx_body_f64 =
  tx_type_f64 :: string
  details_f64 :: tx_details_f64
  status_f64 :: string
  hash_f64 :: string

record transaction_f64 =
  tx_id_f64 :: string
  timestamp_f64 :: string
  body_f64 :: tx_body_f64

record wallet_f64 =
  connected_f64 :: bool
  tCO2Balance_f64 :: f64
  stakedBalance_f64 :: f64
  totalStaked_f64 :: f64
  transactions_f64 :: "transaction_f64 list"

datatype 'r outcome_f64 =
    Returned_f64 'r wallet_f64
  | Threw_f64 error wallet_f64

definition addTransaction_f64 ::
  "stamp \<Rightarrow> tx_body_f64 \<Rightarrow> wallet_f64 \<Rightarrow> transaction_f64 \<times> wallet_f64" where
  "addTransaction_f64 env tx w =
     (let t = \<lparr>tx_id_f64 = new_id env, timestamp_f64 = now env, body_f64 = tx\<rparr>
      in (t, w\<lparr>transactions_f64 := t # transactions_f64 w\<rparr>))"

text \<open>
  \<open>swapUSDTForTCO2(usdtAmount, slippage)\<close>: the connection check, the quote against the
  pool reserves, \<open>minOutput\<close> (computed, used nowhere), the credit, the record.
\<close>

definition swapUSDTForTCO2_f64 ::
  "f64 \<Rightarrow> f64 \<Rightarrow> stamp \<Rightarrow> wallet_f64 \<Rightarrow> (transaction_f64 \<times> f64) outcome_f64" where
  "swapUSDTForTCO2_f64 usdtAmount slippage env w =
     (if \<not> connected_f64 w then Threw_f64 NotConnected w
      else
        let reserves = getPoolReserves
        in case calculateSwapOutput_f64 usdtAmount (Fin (USDT reserves)) (Fin (tCO2 reserves))
                  fee_f64 of
             Inl e \<Rightarrow> Threw_f64 e w
           | Inr tCO2Output \<Rightarrow>
               let minOutput = fmul tCO2Output (fsub (Fin 1) (fdiv slippage (Fin 100)));
                   w1 = w\<lparr>tCO2Balance_f64 := fadd (tCO2Balance_f64 w) tCO2Output\<rparr>;
                   (tx, w2) = addTransaction_f64 env
                     \<lparr>tx_type_f64 = ''buy'',
                      details_f64 = SwapDetails_f64 usdtAmount ''USDT'' (toFixed2_f64 tCO2Output)
                                      ''tCO2'' (toFixed2_f64 (fdiv usdtAmount tCO2Output)),
                      status_f64 = ''completed'', hash_f64 = new_hash env\<rparr> w1
               in Returned_f64 (tx, tCO2Output) w2)"



text \<open>
  \<open>executeBuyTrade()\<close> reads the amount field with \<open>parseFloat\<close> (which may give \<open>NaN\<close>),
  shows a toast and returns. It guards the call of \<open>swapUSDTForTCO2\<close> with
  \<open>if (!amount || amount <= 0)\<close>, where \<open>!amount\<close> holds of \<open>NaN\<close> and of zero, and
  catches what the call throws.
\<close>

datatype toast =
    WalletRequired
  | InvalidAmountToast
  | TradeSuccessful fixed2
  | TradeFailed error

definition executeBuyTrade_f64 ::
  "f64 \<Rightarrow> f64 \<Rightarrow> stamp \<Rightarrow> wallet_f64 \<Rightarrow> toast \<times> wallet_f64" where
  "executeBuyTrade_f64 amount selectedSlippage env w =
     (if \<not> connected_f64 w then (WalletRequired, w)
      else if (amount = NaN \<or> amount = Fin 0) \<or> fle amount (Fin 0) then (InvalidAmountToast, w)
      else (case swapUSDTForTCO2_f64 amount selectedSlippage env w of
              Returned_f64 result w' \<Rightarrow> (TradeSuccessful (toFixed2_f64 (snd result)), w')
            | Threw_f64 e w' \<Rightarrow> (TradeFailed e, w')))"

text \<open>The wallet a call leaves behind, and a connected wallet with given balances.\<close>

definition wallet_after :: "'r outcome_f64 \<Rightarrow> wallet_f64" where
  "wallet_after r = (case r of Returned_f64 v w \<Rightarrow> w | Threw_f64 e w \<Rightarrow> w)"

definition example_wallet_f64 :: "f64 \<Rightarrow> f64 \<Rightarrow> wallet_f64" where
  "example_wallet_f64 liquid staked =
     \<lparr>connected_f64 = True, tCO2Balance_f64 = liquid, stakedBalance_f64 = staked,
      totalStaked_f64 = Fin 0, transactions_f64 = []\<rparr>"

lemmas example_defs = example_stamp_def example_wallet_def initial_state_def failing_store_def

section \<open>Rounding\<close>

text \<open>The exponent found by \<open>ilog2\<close> is the binary exponent, and rounding moves by half a step at most.\<close>

lemma bitlen_powi:
  assumes "0 < (p::int)"
  shows "(2::rat) powi (bitlen p - 1) \<le> of_int p" "of_int p < (2::rat) powi (bitlen p)"
proof -
  from bitlen_bounds[OF assms] have b: "2 ^ nat (bitlen p - 1) \<le> p" "p < 2 ^ nat (bitlen p)"
    by auto
  have ge1: "1 \<le> bitlen p" using assms bitlen_eq_zero_iff[of p] bitlen_nonneg[of p] by linarith
  have "(2::rat) powi (bitlen p - 1) = 2 ^ nat (bitlen p - 1)"
    using ge1 by (simp add: power_int_def)
  also have "\<dots> = of_int (2 ^ nat (bitlen p - 1))" by simp
  also have "\<dots> \<le> of_int p" using b(1) by (simp only: of_int_le_iff)
  finally show "(2::rat) powi (bitlen p - 1) \<le> of_int p" .
  have "(of_int p :: rat) < of_int (2 ^ nat (bitlen p))" using b(2) by (simp only: of_int_less_iff)
  also have "\<dots> = 2 ^ nat (bitlen p)" by simp
  also have "\<dots> = (2::rat) powi (bitlen p)" using ge1 by (simp add: power_int_def)
  finally show "of_int p < (2::rat) powi (bitlen p)" .
qed

lemma ilog2_bounds:
  assumes "0 < a"
  shows "2 powi (ilog2 a) \<le> a" "a < 2 powi (ilog2 a + 1)"
proof -
  obtain p q where pq: "quotient_of a = (p, q)" by (cases "quotient_of a")
  have q: "0 < q" using quotient_of_denom_pos[OF pq] .
  have a: "a = of_int p / of_int q" using quotient_of_div[OF pq] .
  have p: "0 < p" using assms a q by (simp add: zero_less_divide_iff)
  define g where "g = bitlen p - bitlen q"
  note bp = bitlen_powi[OF p] and bq = bitlen_powi[OF q]
  have qpos: "(0::rat) < of_int q" using q by simp
  have "a < 2 powi (bitlen p) / 2 powi (bitlen q - 1)"
    unfolding a using bp(2) bq(1) qpos p
    by (intro frac_less) (auto simp: zero_less_power_int)
  also have "\<dots> = 2 powi (g + 1)"
    by (simp add: g_def power_int_diff[symmetric] algebra_simps)
  finally have up: "a < 2 powi (g + 1)" .
  have "2 powi (g - 1) = (2::rat) powi (bitlen p - 1) / 2 powi (bitlen q)"
    by (simp add: g_def power_int_diff[symmetric] algebra_simps)
  also have "\<dots> \<le> of_int p / 2 powi (bitlen q)"
    using bp(1) by (simp add: divide_right_mono zero_less_power_int less_imp_le)
  also have "\<dots> \<le> of_int p / of_int q"
    using bq(2) p qpos by (intro divide_left_mono) (auto simp: zero_less_power_int intro!: mult_pos_pos)
  finally have lo: "2 powi (g - 1) \<le> a" unfolding a .
  have il: "ilog2 a = (if 2 powi g \<le> a then g else g - 1)"
    by (simp add: ilog2_def pq g_def Let_def)
  show "2 powi (ilog2 a) \<le> a" using il lo by auto
  show "a < 2 powi (ilog2 a + 1)" using il up by (auto simp: not_le)
qed

lemma ilog2_unique:
  assumes "0 < a" "2 powi e \<le> a" "a < 2 powi (e + 1)"
  shows "ilog2 a = e"
proof -
  note b = ilog2_bounds[OF assms(1)]
  have "(2::rat) powi e < 2 powi (ilog2 a + 1)" using assms(2) b(2) by simp
  then have 1: "e < ilog2 a + 1"
    by (metis not_le one_le_numeral power_int_increasing)
  have "(2::rat) powi (ilog2 a) < 2 powi (e + 1)" using assms(3) b(1) by simp
  then have 2: "ilog2 a < e + 1"
    by (metis not_le one_le_numeral power_int_increasing)
  from 1 2 show ?thesis by simp
qed

lemma round_half_even_bounds:
  "\<bar>of_int (round_half_even t) - t\<bar> \<le> 1 / 2"
proof -
  have "of_int \<lfloor>t\<rfloor> \<le> t" "t < of_int \<lfloor>t\<rfloor> + 1" by linarith+
  then show ?thesis
    by (auto simp add: round_half_even_def Let_def abs_le_iff)
qed

lemma round_half_even_near:
  assumes "of_int m - 1 / 2 < t" "t < of_int m + 1 / 2"
  shows "round_half_even t = m"
proof -
  have b: "\<bar>of_int (round_half_even t) - t\<bar> \<le> 1 / 2" by (rule round_half_even_bounds)
  have "\<bar>(of_int (round_half_even t) :: rat) - of_int m\<bar> < 1"
    using b assms unfolding abs_le_iff abs_less_iff by linarith
  then have "\<bar>round_half_even t - m\<bar> < 1"
    by (metis of_int_abs of_int_diff of_int_less_1_iff)
  then show ?thesis by simp
qed

lemma round64_mag_normal:
  assumes "0 < x" "2 powi e \<le> x" "x < 2 powi (e + 1)" "- 1022 \<le> e" "e \<le> 1023"
    and "round_half_even (x / 2 powi (e - 52)) = m" "\<not> (e = 1023 \<and> 2 ^ 53 \<le> m)"
  shows "round64_mag x = Some (of_int m * 2 powi (e - 52))"
proof -
  have il: "ilog2 x = e" using ilog2_unique[OF assms(1-3)] .
  have mx: "max e (- 1022) = e" using assms(4) by simp
  have ov: "\<not> (1023 < e \<or> (e = 1023 \<and> 2 ^ 53 \<le> m))" using assms(5,7) by auto
  show ?thesis
    unfolding round64_mag_def Let_def
    by (simp only: il mx assms(6) ov if_False)
qed

lemma round64_normal:
  assumes "0 < x" "2 powi e \<le> x" "x < 2 powi (e + 1)" "- 1022 \<le> e" "e \<le> 1023"
    and "of_int m - 1 / 2 < x / 2 powi (e - 52)" "x / 2 powi (e - 52) < of_int m + 1 / 2"
    and "m < 2 ^ 53"
  shows "round64 x = Fin (of_int m * 2 powi (e - 52))"
proof -
  have r: "round_half_even (x / 2 powi (e - 52)) = m"
    using round_half_even_near[OF assms(6,7)] .
  have "round64_mag x = Some (of_int m * 2 powi (e - 52))"
    using round64_mag_normal[OF assms(1-5) r] assms(8) by simp
  then show ?thesis using assms(1) by (simp add: round64_def)
qed

lemma round64_neg: "round64 (- x) = fneg (round64 x)"
  by (cases "0 < x") (auto simp add: round64_def split: option.splits)



lemma round_half_even_tie:
  assumes "t = of_int m + 1 / 2"
  shows "round_half_even t = (if even m then m else m + 1)"
proof -
  have "\<lfloor>t\<rfloor> = m" unfolding assms by (intro floor_unique) auto
  then show ?thesis by (simp add: round_half_even_def Let_def assms)
qed

lemma round64_normal_tie:
  assumes "0 < x" "2 powi e \<le> x" "x < 2 powi (e + 1)" "- 1022 \<le> e" "e \<le> 1023"
    and "x / 2 powi (e - 52) = of_int m + 1 / 2" "m + 1 < 2 ^ 53"
  shows "round64 x = Fin (of_int (if even m then m else m + 1) * 2 powi (e - 52))"
proof -
  have r: "round_half_even (x / 2 powi (e - 52)) = (if even m then m else m + 1)"
    using round_half_even_tie[OF assms(6)] .
  have "round64_mag x = Some (of_int (if even m then m else m + 1) * 2 powi (e - 52))"
    using round64_mag_normal[OF assms(1-5) r] assms(7) by auto
  then show ?thesis using assms(1) by (simp add: round64_def)
qed

text \<open>From \<open>2 powi 1024\<close> on a number rounds to the infinity.\<close>

lemma round64_overflow:
  assumes "0 < x" "2 powi e \<le> x" "x < 2 powi (e + 1)" "1023 < e"
  shows "round64 x = PInf"
proof -
  have "ilog2 x = e" using ilog2_unique[OF assms(1-3)] .
  then have "round64_mag \<bar>x\<bar> = None"
    using assms(1,4) by (simp add: round64_mag_def Let_def max_def)
  then show ?thesis using assms(1) by (simp add: round64_def)
qed

text \<open>
  In the normal range rounding changes a number by the factor \<open>1 \<plusminus> u64\<close> at most, and
  the result stays within a factor 2 of the number.
\<close>

lemma round64_accuracy:
  assumes "1 / 2 ^ 1022 \<le> x" "x \<le> 2 ^ 1023"
  shows "\<exists>y. round64 x = Fin y \<and> x * (1 - u64) \<le> y \<and> y \<le> x * (1 + u64)"
proof -
  have x: "0 < x" using assms(1) by (meson less_le_trans zero_less_divide_1_iff zero_less_numeral zero_less_power)
  define e where "e = ilog2 x"
  note b = ilog2_bounds[OF x, folded e_def]
  have lo: "(2::rat) powi (- 1022) \<le> x"
    using assms(1) by (simp add: power_int_minus_divide)
  have hi: "x \<le> (2::rat) powi 1023" using assms(2) by simp
  have "(2::rat) powi (- 1022) < 2 powi (e + 1)" using lo b(2) by simp
  then have "- 1022 < e + 1"
    by (metis not_le one_le_numeral power_int_increasing)
  then have e1: "- 1022 \<le> e" by simp
  have "(2::rat) powi e < 2 powi 1024"
  proof -
    have "(2::rat) powi 1023 < 2 powi 1024" by (rule power_int_strict_increasing) simp_all
    then show ?thesis using hi b(1) by linarith
  qed
  then have "e < 1024"
    by (metis not_le one_le_numeral power_int_increasing)
  then have e2: "e \<le> 1023" by simp
  define q :: rat where "q = 2 powi (e - 52)"
  have q: "0 < q" by (simp add: q_def zero_less_power_int)
  define m where "m = round_half_even (x / q)"
  have mb: "\<bar>of_int m - x / q\<bar> \<le> 1 / 2" unfolding m_def by (rule round_half_even_bounds)
  have qe: "q * 2 ^ 52 = 2 powi e"
    by (simp add: q_def power_int_diff)
  have m53: "\<not> (e = 1023 \<and> 2 ^ 53 \<le> m)"
  proof
    assume h: "e = 1023 \<and> 2 ^ 53 \<le> m"
    then have "x = 2 powi e" using hi b(1) by simp
    then have "x / q = 2 ^ 52" using qe q by (simp add: field_simps)
    then have "m = 2 ^ 52" unfolding m_def
      using round_half_even_near[of "2 ^ 52" "x / q"] by simp
    with h show False by simp
  qed
  have r: "round64 x = Fin (of_int m * q)"
  proof -
    have "round64_mag x = Some (of_int m * 2 powi (e - 52))"
      using round64_mag_normal[OF x b e1 e2 _ m53[unfolded m_def q_def]]
      by (simp add: m_def q_def)
    then show ?thesis using x by (simp add: round64_def m_def q_def)
  qed
  have err: "\<bar>of_int m * q - x\<bar> \<le> q / 2"
  proof -
    have "of_int m * q - x = (of_int m - x / q) * q"
      using q by (simp add: field_simps)
    then have "\<bar>of_int m * q - x\<bar> = \<bar>of_int m - x / q\<bar> * q"
      using q by (simp add: abs_mult abs_of_pos)
    also have "\<dots> \<le> (1 / 2) * q" using mb q by (intro mult_right_mono) auto
    finally show ?thesis by simp
  qed
  have qx: "q / 2 \<le> x * u64"
  proof -
    have "q / 2 = 2 powi e * u64" using qe[symmetric] by (simp add: u64_def)
    also have "\<dots> \<le> x * u64" using b(1) by (intro mult_right_mono) (auto simp: u64_def)
    finally show ?thesis .
  qed
  from err qx have "\<bar>of_int m * q - x\<bar> \<le> x * u64" by linarith
  then have "x - x * u64 \<le> of_int m * q" "of_int m * q \<le> x + x * u64"
    unfolding abs_le_iff by linarith+
  then have "x * (1 - u64) \<le> of_int m * q" "of_int m * q \<le> x * (1 + u64)"
    by (simp_all add: algebra_simps)
  with r show ?thesis by blast
qed

lemma rnd_step:
  assumes "1 / 2 ^ a \<le> t" "t \<le> 2 ^ b" "a \<le> 1021" "b \<le> 1022"
  obtains y where "round64 t = Fin y" "t * (1 - u64) \<le> y" "y \<le> t * (1 + u64)"
    "1 / 2 ^ (a + 1) \<le> y" "y \<le> 2 ^ (b + 1)"
proof -
  have t: "0 < t" using assms(1)
    by (meson less_le_trans zero_less_divide_1_iff zero_less_numeral zero_less_power)
  have "(1::rat) / 2 ^ 1022 \<le> 1 / 2 ^ a"
    using assms(3) by (intro divide_left_mono power_increasing) auto
  then have lo: "1 / 2 ^ 1022 \<le> t" using assms(1) by linarith
  have "(2::rat) ^ b \<le> 2 ^ 1023" using assms(4) by (intro power_increasing) auto
  then have hi: "t \<le> 2 ^ 1023" using assms(2) by linarith
  from round64_accuracy[OF lo hi] obtain y where
    y: "round64 t = Fin y" "t * (1 - u64) \<le> y" "y \<le> t * (1 + u64)" by blast
  have u: "1 / 2 \<le> 1 - u64" "1 + u64 \<le> 2" by (simp_all add: u64_def)
  have "1 / 2 ^ (a + 1) = (1 / 2 ^ a) * (1 / 2 :: rat)" by simp
  also have "\<dots> \<le> t * (1 - u64)"
    using assms(1) u(1) t by (intro mult_mono) auto
  finally have 1: "1 / 2 ^ (a + 1) \<le> y" using y(2) by linarith
  have "t * (1 + u64) \<le> 2 ^ b * 2"
    using assms(2) u(2) t by (intro mult_mono) (auto simp: u64_def)
  then have 2: "y \<le> 2 ^ (b + 1)" using y(3) by simp
  from y 1 2 show ?thesis by (rule that)
qed

lemma g_mono:
  fixes ri a b :: rat
  assumes "0 < ri" "0 \<le> a" "a \<le> b"
  shows "a / (ri + a) \<le> b / (ri + b)"
proof -
  have "a * (ri + b) \<le> b * (ri + a)"
    using assms by (simp add: algebra_simps)
  then show ?thesis using assms by (simp add: field_simps)
qed

lemma g_scale_up:
  fixes ri e k :: rat
  assumes "0 < ri" "0 \<le> e" "1 \<le> k"
  shows "(k * e) / (ri + k * e) \<le> k * (e / (ri + e))"
proof -
  have "ri + e \<le> ri + k * e" using assms by (simp add: mult_le_cancel_right1)
  then have "e / (ri + k * e) \<le> e / (ri + e)"
    using assms by (intro divide_left_mono) (auto intro!: mult_pos_pos add_pos_nonneg)
  then have "k * (e / (ri + k * e)) \<le> k * (e / (ri + e))"
    using assms by (intro mult_left_mono) auto
  then show ?thesis by simp
qed

lemma g_scale_down:
  fixes ri e k :: rat
  assumes "0 < ri" "0 \<le> e" "0 \<le> k" "k \<le> 1"
  shows "k * (e / (ri + e)) \<le> (k * e) / (ri + k * e)"
proof -
  have "ri + k * e \<le> ri + e" using assms by (simp add: mult_le_cancel_right2)
  moreover have "0 < ri + k * e" using assms by (intro add_pos_nonneg) auto
  ultimately have "e / (ri + e) \<le> e / (ri + k * e)"
    using assms by (intro divide_left_mono) (auto intro!: mult_pos_pos add_pos_nonneg)
  then have "k * (e / (ri + e)) \<le> k * (e / (ri + k * e))"
    using assms by (intro mult_left_mono) auto
  then show ?thesis by simp
qed

section \<open>The swap quote\<close>

lemma swap_quote_pos:
  fixes e ri ro :: rat
  assumes "0 < e" "0 < ri" "0 < ro"
  shows "0 < e * ro / (ri + e)"
  using assms by (simp add: add_pos_pos)

lemma swap_quote_less:
  fixes e ri ro :: rat
  assumes "0 < e" "0 < ri" "0 < ro"
  shows "e * ro / (ri + e) < ro"
proof -
  have d: "0 < ri + e" using assms by (simp add: add_pos_pos)
  have "e * ro < ro * (ri + e)"
    using assms by (simp add: algebra_simps)
  then show ?thesis
    using d by (simp add: pos_divide_less_eq)
qed


text \<open>The quotes against the pool of \<open>getPoolReserves\<close>, for a positive amount.\<close>

lemma pool_quote_buy:
  assumes "0 < amount"
  shows "calculateSwapOutput amount (USDT getPoolReserves) (tCO2 getPoolReserves) default_fee
           = Inr (Finite (amount * (1 - 3 / 1000) * 1000000
                            / (15500000 + amount * (1 - 3 / 1000))))"
    and "0 < amount * (1 - 3 / 1000) * 1000000 / (15500000 + amount * (1 - 3 / 1000))"
proof -
  have e: "0 < amount * (1 - 3 / 1000)" using assms by simp
  then have d: "0 < 15500000 + amount * (1 - 3 / 1000)" by (simp add: add_pos_pos)
  then show "calculateSwapOutput amount (USDT getPoolReserves) (tCO2 getPoolReserves) default_fee
           = Inr (Finite (amount * (1 - 3 / 1000) * 1000000
                            / (15500000 + amount * (1 - 3 / 1000))))"
    by (simp add: calculateSwapOutput_def getPoolReserves_def default_fee_def js_div_def Let_def)
  show "0 < amount * (1 - 3 / 1000) * 1000000 / (15500000 + amount * (1 - 3 / 1000))"
    using e d by simp
qed

lemma pool_quote_sell:
  assumes "0 < amount"
  shows "calculateSwapOutput amount (tCO2 getPoolReserves) (USDT getPoolReserves) default_fee
           = Inr (Finite (amount * (1 - 3 / 1000) * 15500000
                            / (1000000 + amount * (1 - 3 / 1000))))"
    and "0 < amount * (1 - 3 / 1000) * 15500000 / (1000000 + amount * (1 - 3 / 1000))"
proof -
  have e: "0 < amount * (1 - 3 / 1000)" using assms by simp
  then have d: "0 < 1000000 + amount * (1 - 3 / 1000)" by (simp add: add_pos_pos)
  then show "calculateSwapOutput amount (tCO2 getPoolReserves) (USDT getPoolReserves) default_fee
           = Inr (Finite (amount * (1 - 3 / 1000) * 15500000
                            / (1000000 + amount * (1 - 3 / 1000))))"
    by (simp add: calculateSwapOutput_def getPoolReserves_def default_fee_def js_div_def Let_def)
  show "0 < amount * (1 - 3 / 1000) * 15500000 / (1000000 + amount * (1 - 3 / 1000))"
    using e d by simp
qed

text \<open>
  The accuracy of the quote: for amount and reserves between \<open>2 powi (- 200)\<close> and
  \<open>2 powi 200\<close> no operation overflows or underflows, and the double returned is within
  the relative error \<open>2 powi (- 50)\<close> of the exact value.
\<close>

lemma fee_f64_eval: "fee_f64 = Fin (3458764513820541 / 1152921504606846976)"
  unfolding fee_f64_def
  using round64_normal[of "3 / 1000" "- 9" 6917529027641082] by simp

lemma one_minus_fee: "fsub (Fin 1) fee_f64 = Fin c64"
  using round64_normal[of "1 - 3458764513820541 / 1152921504606846976" "- 1" 8980177656976769]
  by (simp add: fee_f64_eval fsub_def c64_def)

lemma quote_f64_accuracy:
  assumes x: "1 / 2 ^ 200 \<le> x" "x \<le> 2 ^ 200"
      and ri: "1 / 2 ^ 200 \<le> ri" "ri \<le> 2 ^ 200"
      and ro: "1 / 2 ^ 200 \<le> ro" "ro \<le> 2 ^ 200"
  shows "\<exists>v. calculateSwapOutput_f64 (Fin x) (Fin ri) (Fin ro) fee_f64 = Inr (Fin v)
           \<and> x * (997 / 1000) * ro / (ri + x * (997 / 1000)) * (1 - 1 / 2 ^ 50) \<le> v
           \<and> v \<le> x * (997 / 1000) * ro / (ri + x * (997 / 1000)) * (1 + 1 / 2 ^ 50)"
proof -
  have pos: "0 < x" "0 < ri" "0 < ro"
    using x(1) ri(1) ro(1)
    by (meson less_le_trans zero_less_divide_1_iff zero_less_numeral zero_less_power)+
  have c: "1 / 2 \<le> c64" "c64 \<le> 1" "0 < c64" by (simp_all add: c64_def)
  define U where "U = 1 + u64"
  define L where "L = 1 - u64"
  have UL: "0 < L" "0 < U" "L \<le> 1" "1 \<le> U" by (simp_all add: U_def L_def u64_def)
  \<comment> \<open>the four rounded operations\<close>
  have "(1 / 2 ^ 200) * (1 / 2) \<le> x * c64"
    using x(1) c(1) by (intro mult_mono) auto
  then have t1lo: "1 / 2 ^ 201 \<le> x * c64" by simp
  have t1hi: "x * c64 \<le> 2 ^ 200"
    using x(2) c(2) pos(1) by (metis mult.right_neutral mult_left_mono less_imp_le order_trans)
  from rnd_step[OF t1lo t1hi] obtain e1 where
    e1: "round64 (x * c64) = Fin e1" "x * c64 * L \<le> e1" "e1 \<le> x * c64 * U"
      "1 / 2 ^ 202 \<le> e1" "e1 \<le> 2 ^ 201"
    unfolding U_def L_def by auto
  have e1pos: "0 < e1" using e1(4)
    by (meson less_le_trans zero_less_divide_1_iff zero_less_numeral zero_less_power)
  have "(1 / 2 ^ 202) * (1 / 2 ^ 200) \<le> e1 * ro"
    using e1(4) ro(1) by (intro mult_mono) auto
  then have t2lo: "1 / 2 ^ 402 \<le> e1 * ro" by simp
  have "e1 * ro \<le> 2 ^ 201 * 2 ^ 200"
    using e1(5) ro(2) e1pos pos(3) by (intro mult_mono) auto
  then have t2hi: "e1 * ro \<le> 2 ^ 401" by simp
  from rnd_step[OF t2lo t2hi] obtain n where
    n: "round64 (e1 * ro) = Fin n" "e1 * ro * L \<le> n" "n \<le> e1 * ro * U"
      "1 / 2 ^ 403 \<le> n" "n \<le> 2 ^ 402"
    unfolding U_def L_def by auto
  have npos: "0 < n" using n(4)
    by (meson less_le_trans zero_less_divide_1_iff zero_less_numeral zero_less_power)
  have t3lo: "1 / 2 ^ 200 \<le> ri + e1" using ri(1) e1pos by linarith
  have t3hi: "ri + e1 \<le> 2 ^ 202" using ri(2) e1(5) by simp
  from rnd_step[OF t3lo t3hi] obtain d where
    d: "round64 (ri + e1) = Fin d" "(ri + e1) * L \<le> d" "d \<le> (ri + e1) * U"
      "1 / 2 ^ 201 \<le> d" "d \<le> 2 ^ 203"
    unfolding U_def L_def by auto
  have dpos: "0 < d" using d(4)
    by (meson less_le_trans zero_less_divide_1_iff zero_less_numeral zero_less_power)
  have "(1 / 2 ^ 403) / 2 ^ 203 \<le> n / d"
    using n(4) d(5) dpos by (intro frac_le) auto
  then have t4lo: "1 / 2 ^ 606 \<le> n / d" by simp
  have "n / d \<le> 2 ^ 402 / (1 / 2 ^ 201)"
    using n(5) d(4) npos by (intro frac_le) auto
  then have t4hi: "n / d \<le> 2 ^ 603" by simp
  from rnd_step[OF t4lo t4hi] obtain v where
    v: "round64 (n / d) = Fin v" "n / d * L \<le> v" "v \<le> n / d * U"
    unfolding U_def L_def by auto
  have eval: "calculateSwapOutput_f64 (Fin x) (Fin ri) (Fin ro) fee_f64 = Inr (Fin v)"
    using dpos by (simp add: calculateSwapOutput_f64_def one_minus_fee Let_def e1(1) n(1) d(1) v(1))
  \<comment> \<open>the accumulated error\<close>
  define eE where "eE = x * (997 / 1000)"
  define G where "G = eE / (ri + eE)"
  define g1 where "g1 = e1 / (ri + e1)"
  define kU where "kU = c64 * U / (997 / 1000)"
  define kL where "kL = c64 * L / (997 / 1000)"
  have eE: "0 < eE" using pos(1) by (simp add: eE_def)
  have G: "0 \<le> G" using eE pos(2) by (simp add: G_def)
  have k: "1 \<le> kU" "0 \<le> kL" "kL \<le> 1"
    by (simp_all add: kU_def kL_def U_def L_def u64_def c64_def)
  have eU: "x * c64 * U = kU * eE" and eL: "x * c64 * L = kL * eE"
    by (simp_all add: kU_def kL_def eE_def)
  have g1_up: "g1 \<le> kU * G"
  proof -
    have "g1 \<le> (kU * eE) / (ri + kU * eE)"
      unfolding g1_def using g_mono[OF pos(2) _ e1(3)] e1pos eU by simp
    also have "\<dots> \<le> kU * G"
      unfolding G_def using g_scale_up[OF pos(2) _ k(1), of eE] eE by simp
    finally show ?thesis .
  qed
  have g1_lo: "kL * G \<le> g1"
  proof -
    have "kL * G \<le> (kL * eE) / (ri + kL * eE)"
      unfolding G_def using g_scale_down[OF pos(2) _ k(2,3), of eE] eE by simp
    also have "\<dots> \<le> g1"
      unfolding g1_def using g_mono[OF pos(2) _ e1(2)] eL k(2) eE by simp
    finally show ?thesis .
  qed
  have rie: "0 < ri + e1" using pos(2) e1pos by simp
  have nd_up: "n / d \<le> g1 * (ro * U / L)"
  proof -
    have "n / d \<le> (e1 * ro * U) / ((ri + e1) * L)"
      using n(3) d(2) npos rie UL(1) by (intro frac_le) auto
    also have "\<dots> = g1 * (ro * U / L)" by (simp add: g1_def)
    finally show ?thesis .
  qed
  have nd_lo: "g1 * (ro * L / U) \<le> n / d"
  proof -
    have "(e1 * ro * L) / ((ri + e1) * U) \<le> n / d"
      using n(2) d(3) dpos npos e1pos pos(3) UL by (intro frac_le) auto
    then show ?thesis by (simp add: g1_def)
  qed
  have E: "x * (997 / 1000) * ro / (ri + x * (997 / 1000)) = G * ro"
    by (simp add: G_def eE_def)
  have KU: "kU * U * U / L \<le> 1 + 1 / 2 ^ 50"
    by (simp add: kU_def U_def L_def u64_def c64_def)
  have KL: "1 - 1 / 2 ^ 50 \<le> kL * L * L / U"
    by (simp add: kL_def U_def L_def u64_def c64_def)
  have up: "v \<le> G * ro * (1 + 1 / 2 ^ 50)"
  proof -
    have "v \<le> g1 * (ro * U / L) * U"
      using v(3) nd_up UL(2) by (meson mult_right_mono less_imp_le order_trans)
    also have "\<dots> \<le> kU * G * (ro * U / L) * U"
      using g1_up pos(3) UL by (intro mult_right_mono) auto
    also have "\<dots> = G * ro * (kU * U * U / L)" by simp
    also have "\<dots> \<le> G * ro * (1 + 1 / 2 ^ 50)"
      using KU G pos(3) by (intro mult_left_mono) auto
    finally show ?thesis .
  qed
  have low: "G * ro * (1 - 1 / 2 ^ 50) \<le> v"
  proof -
    have "G * ro * (1 - 1 / 2 ^ 50) \<le> G * ro * (kL * L * L / U)"
      using KL G pos(3) by (intro mult_left_mono) auto
    also have "\<dots> = kL * G * (ro * L / U) * L" by simp
    also have "\<dots> \<le> g1 * (ro * L / U) * L"
      using g1_lo pos(3) UL by (intro mult_right_mono) auto
    also have "\<dots> \<le> n / d * L"
      using nd_lo UL(1) by (intro mult_right_mono) auto
    also have "\<dots> \<le> v" using v(2) .
    finally show ?thesis .
  qed
  from eval up low show ?thesis unfolding E by blast
qed

text \<open>Single operations on given doubles, each by its exponent and its multiple of the quantum.\<close>

lemma eval_1: "fmul (Fin 1000) (Fin c64) = Fin 997"
  using round64_normal[of "1000 * c64" "9" 8769704743141376]
  by (simp add: fsub_def c64_def)

lemma eval_2: "fmul (Fin 997) (Fin 1000000) = Fin 997000000"
  using round64_normal[of "997 * 1000000" "29" 8363442176000000]
  by (simp add: fsub_def)

lemma eval_3: "fadd (Fin 15500000) (Fin 997) = Fin 15500997"
  using round64_normal[of "15500000 + 997" "23" 8322034396299264]
  by (simp add: fsub_def)

lemma eval_4: "fdiv (Fin 997000000) (Fin 15500997) = Fin (4526008097745649 / 70368744177664)"
  using round64_normal[of "997000000 / 15500997" "6" 4526008097745649]
  by (simp add: fsub_def)

lemma eval_5: "fmul (Fin 30000000000000000570425344) (Fin c64) = Fin 29910000000000001715470336"
  using round64_normal[of "30000000000000000570425344 * c64" "84" 6963964551687241]
  by (simp add: fsub_def c64_def)

lemma eval_6: "fmul (Fin 29910000000000001715470336) (Fin 15500000) = Fin 463605000000000055913902759739392"
  using round64_normal[of "29910000000000001715470336 * 15500000" "108" 6433811816641822]
  by (simp add: fsub_def)

lemma eval_7: "fadd (Fin 1000000) (Fin 29910000000000001715470336) = Fin 29910000000000001715470336"
  using round64_normal[of "1000000 + 29910000000000001715470336" "84" 6963964551687241]
  by (simp add: fsub_def)

lemma eval_8: "fdiv (Fin 463605000000000055913902759739392) (Fin 29910000000000001715470336) = Fin (8321499136000001 / 536870912)"
  using round64_normal[of "463605000000000055913902759739392 / 29910000000000001715470336" "23" 8321499136000001]
  by (simp add: fsub_def)

lemma eval_9: "fmul (Fin 1000000000000000019884624838656) (Fin c64) = Fin 997000000000000020669395894272"
  using round64_normal[of "1000000000000000019884624838656 * c64" "99" 7084111075528199]
  by (simp add: fsub_def c64_def)

lemma eval_10: "fmul (Fin 997000000000000020669395894272) (Fin 1) = Fin 997000000000000020669395894272"
  using round64_normal[of "997000000000000020669395894272 * 1" "99" 7084111075528199]
  by (simp add: fsub_def)

lemma eval_11: "fadd (Fin 1) (Fin 997000000000000020669395894272) = Fin 997000000000000020669395894272"
  using round64_normal[of "1 + 997000000000000020669395894272" "99" 7084111075528199]
  by (simp add: fsub_def)

lemma eval_12: "fdiv (Fin 997000000000000020669395894272) (Fin 997000000000000020669395894272) = Fin 1"
  using round64_normal[of "997000000000000020669395894272 / 997000000000000020669395894272" "0" 4503599627370496]
  by (simp add: fsub_def)

lemma eval_13: "fmul (Fin (1589146823842391 / 17179869184)) (Fin c64) = Fin (6337517533483455 / 68719476736)"
  using round64_normal[of "(1589146823842391 / 17179869184) * c64" "16" 6337517533483455]
  by (simp add: fsub_def c64_def)

lemma eval_14: "fmul (Fin (6337517533483455 / 68719476736)) (Fin 1000000) = Fin (3021963850728729 / 32768)"
  using round64_normal[of "(6337517533483455 / 68719476736) * 1000000" "36" 6043927701457458]
  by (simp add: fsub_def)

lemma eval_15: "fadd (Fin 15500000) (Fin (6337517533483455 / 68719476736)) = Fin (8371010991730339 / 536870912)"
  using round64_normal[of "15500000 + (6337517533483455 / 68719476736)" "23" 8371010991730339]
  by (simp add: fsub_def)

lemma eval_16: "fdiv (Fin (3021963850728729 / 32768)) (Fin (8371010991730339 / 536870912)) = Fin (3251630008732267 / 549755813888)"
  using round64_normal[of "(3021963850728729 / 32768) / (8371010991730339 / 536870912)" "12" 6503260017464534]
  by (simp add: fsub_def)

lemma eval_17: "fmul (Fin (6356587295369565 / 68719476736)) (Fin c64) = Fin (99023711460679 / 1073741824)"
  using round64_normal[of "(6356587295369565 / 68719476736) * c64" "16" 6337517533483456]
  by (simp add: fsub_def c64_def)

lemma eval_18: "fmul (Fin (99023711460679 / 1073741824)) (Fin 1000000) = Fin (3021963850728729 / 32768)"
  using round64_normal[of "(99023711460679 / 1073741824) * 1000000" "36" 6043927701457458]
  by (simp add: fsub_def)

lemma eval_19: "fadd (Fin 15500000) (Fin (99023711460679 / 1073741824)) = Fin (2092752747932585 / 134217728)"
  using round64_normal_tie[of "15500000 + (99023711460679 / 1073741824)" "23" 8371010991730339]
  by (simp add: fsub_def)

lemma eval_20: "fdiv (Fin (3021963850728729 / 32768)) (Fin (2092752747932585 / 134217728)) = Fin (6503260017464533 / 1099511627776)"
  using round64_normal[of "(3021963850728729 / 32768) / (2092752747932585 / 134217728)" "12" 6503260017464533]
  by (simp add: fsub_def)

lemma eval_21: "fmul (Fin 0) (Fin c64) = Fin 0"
  by (simp add: round64_def fsub_def c64_def)

lemma eval_22: "fmul (Fin 0) (Fin 1000000) = Fin 0"
  by (simp add: round64_def fsub_def)

lemma eval_23: "fadd (Fin 15500000) (Fin 0) = Fin 15500000"
  using round64_normal[of "15500000 + 0" "23" 8321499136000000]
  by (simp add: fsub_def)

lemma eval_24: "fdiv (Fin 0) (Fin 15500000) = Fin 0"
  by (simp add: round64_def fsub_def)

lemma eval_25: "fadd (Fin 0) (Fin 997) = Fin 997"
  using round64_normal[of "0 + 997" "9" 8769704743141376]
  by (simp add: fsub_def)

lemma eval_26: "fdiv (Fin 997000000) (Fin 997) = Fin 1000000"
  using round64_normal[of "997000000 / 997" "19" 8589934592000000]
  by (simp add: fsub_def)

lemma eval_27: "fmul (Fin 997) (Fin 0) = Fin 0"
  by (simp add: round64_def fsub_def)

lemma eval_28: "fdiv (Fin 0) (Fin 15500997) = Fin 0"
  by (simp add: round64_def fsub_def)

lemma eval_29: "fmul (Fin (- 1000)) (Fin c64) = Fin (- 997)"
  using round64_normal[of "- ((- 1000) * c64)" "9" 8769704743141376] round64_neg[of "- ((- 1000) * c64)"]
  by (simp add: fsub_def c64_def)

lemma eval_30: "fmul (Fin (- 997)) (Fin 1000000) = Fin (- 997000000)"
  using round64_normal[of "- ((- 997) * 1000000)" "29" 8363442176000000] round64_neg[of "- ((- 997) * 1000000)"]
  by (simp add: fsub_def)

lemma eval_31: "fadd (Fin 15500000) (Fin (- 997)) = Fin 15499003"
  using round64_normal[of "15500000 + (- 997)" "23" 8320963875700736]
  by (simp add: fsub_def)

lemma eval_32: "fdiv (Fin (- 997000000)) (Fin 15499003) = Fin (- (4526590384241555 / 70368744177664))"
  using round64_normal[of "- ((- 997000000) / 15499003)" "6" 4526590384241555] round64_neg[of "- ((- 997000000) / 15499003)"]
  by (simp add: fsub_def)

lemma eval_33: "fadd (Fin 100) (Fin (- (4526590384241555 / 70368744177664))) = Fin (2510284033524845 / 70368744177664)"
  using round64_normal[of "100 + (- (4526590384241555 / 70368744177664))" "5" 5020568067049690]
  by (simp add: fsub_def)

lemma eval_34: "fsub (Fin (7965741840911565 / 562949953421312)) (Fin (4075757662770299 / 1125899906842624)) = Fin (370491438095401 / 35184372088832)"
  using round64_normal_tie[of "(7965741840911565 / 562949953421312) - (4075757662770299 / 1125899906842624)" "3" 5927863009526415]
  by (simp add: fsub_def)

lemma eval_35: "fadd (Fin (370491438095401 / 35184372088832)) (Fin (4075757662770299 / 1125899906842624)) = Fin (3982870920455783 / 281474976710656)"
  using round64_normal_tie[of "(370491438095401 / 35184372088832) + (4075757662770299 / 1125899906842624)" "3" 7965741840911565]
  by (simp add: fsub_def)

lemma eval_36: "fadd (Fin 0) (Fin (4075757662770299 / 1125899906842624)) = Fin (4075757662770299 / 1125899906842624)"
  using round64_normal[of "0 + (4075757662770299 / 1125899906842624)" "1" 8151515325540598]
  by (simp add: fsub_def)

lemma eval_37: "fsub (Fin (4075757662770299 / 1125899906842624)) (Fin (4075757662770299 / 1125899906842624)) = Fin 0"
  by (simp add: round64_def fsub_def)

lemma eval_38: "fsub (Fin 15) (Fin 2) = Fin 13"
  using round64_normal[of "15 - 2" "3" 7318349394477056]
  by (simp add: fsub_def)

lemma eval_39: "fadd (Fin (- 3)) (Fin 2) = Fin (- 1)"
  using round64_normal[of "- ((- 3) + 2)" "0" 4503599627370496] round64_neg[of "- ((- 3) + 2)"]
  by (simp add: fsub_def)

lemma eval_40: "fadd (Fin 0) (Fin 2) = Fin 2"
  using round64_normal[of "0 + 2" "1" 4503599627370496]
  by (simp add: fsub_def)

lemmas f64_evals = eval_1 eval_2 eval_3 eval_4 eval_5 eval_6 eval_7 eval_8 eval_9 eval_10 eval_11 eval_12 eval_13 eval_14 eval_15 eval_16 eval_17 eval_18 eval_19 eval_20 eval_21 eval_22 eval_23 eval_24 eval_25 eval_26 eval_27 eval_28 eval_29 eval_30 eval_31 eval_32 eval_33 eval_34 eval_35 eval_36 eval_37 eval_38 eval_39 eval_40

lemmas f64_op_simps = fadd.simps fmul.simps fdiv.simps

text \<open>The operations of two quotes that are not finite.\<close>

lemma eval_41: "fmul (Fin (- (4173269376128385 / 268435456))) (Fin c64) = Fin (- 15500000)"
  using round64_normal[of "- ((- (4173269376128385 / 268435456)) * c64)" "23" 8321499136000000] round64_neg[of "- ((- (4173269376128385 / 268435456)) * c64)"]
  by (simp add: fsub_def c64_def)

lemma eval_42: "fmul (Fin (- 15500000)) (Fin 1000000) = Fin (- 15500000000000)"
  using round64_normal[of "- ((- 15500000) * 1000000)" "43" 7936000000000000] round64_neg[of "- ((- 15500000) * 1000000)"]
  by (simp add: fsub_def)

lemma eval_43: "fadd (Fin 15500000) (Fin (- 15500000)) = Fin 0"
  by (simp add: round64_def)

lemma eval_44: "fmul (Fin (2565335500811485 * 2 ^ 962)) (Fin c64) = Fin (5115278988618101 * 2 ^ 961)"
  using round64_normal[of "2565335500811485 * 2 ^ 962 * c64" "1013" 5115278988618101]
  by (simp add: c64_def)

lemma eval_45: "fmul (Fin (5115278988618101 * 2 ^ 961)) (Fin 1000000) = PInf"
  using round64_overflow[of "5115278988618101 * 2 ^ 961 * 1000000" 1033]
  by simp

lemma eval_46: "fadd (Fin 15500000) (Fin (5115278988618101 * 2 ^ 961)) = Fin (5115278988618101 * 2 ^ 961)"
  using round64_normal[of "15500000 + 5115278988618101 * 2 ^ 961" "1013" 5115278988618101]
  by simp

lemmas f64_evals_non_finite = eval_41 eval_42 eval_43 eval_44 eval_45 eval_46


lemma quote_f64_unfold:
  "calculateSwapOutput_f64 a b c f
     = Inr (fdiv (fmul (fmul a (fsub (Fin 1) f)) c) (fadd b (fmul a (fsub (Fin 1) f))))"
  by (simp add: calculateSwapOutput_f64_def Let_def)

text \<open>
  C1, as the code has it. With the fee 0.003 \<open>calculateSwapOutput\<close> returns
  \<open>effectiveInput * outputReserve / (inputReserve + effectiveInput)\<close>,
  \<open>effectiveInput = inputAmount * (1 - 0.003)\<close>, every operation rounded to the nearest
  double. For amount and reserves between \<open>2 powi (- 200)\<close> and \<open>2 powi 200\<close> the exact
  value of the expression lies strictly between 0 and \<open>outputReserve\<close>, and the double
  returned is within the relative error \<open>2 powi (- 50)\<close> of it: strictly above 0 and
  strictly below \<open>outputReserve * (1 + 2 powi (- 50))\<close>, not always below \<open>outputReserve\<close>.
  For the input 1000 against the reserves 15500000 and 1000000 the double returned is
  64.31844351689121, which \<open>toFixed(2)\<close> renders as 64.32.
\<close>

theorem quote_f64_formula_accuracy:
  "(1 / 2 ^ 200 \<le> x \<and> x \<le> 2 ^ 200 \<and> 1 / 2 ^ 200 \<le> ri \<and> ri \<le> 2 ^ 200
      \<and> 1 / 2 ^ 200 \<le> ro \<and> ro \<le> 2 ^ 200 \<longrightarrow>
      (let effectiveInput = x * (1 - 3 / 1000);
           exact = effectiveInput * ro / (ri + effectiveInput)
       in \<exists>v. calculateSwapOutput_f64 (Fin x) (Fin ri) (Fin ro) fee_f64 = Inr (Fin v)
             \<and> exact * (1 - 1 / 2 ^ 50) \<le> v \<and> v \<le> exact * (1 + 1 / 2 ^ 50)
             \<and> 0 < exact \<and> exact < ro
             \<and> 0 < v \<and> v < ro * (1 + 1 / 2 ^ 50)))
   \<and> calculateSwapOutput_f64 a b c f
       = Inr (fdiv (fmul (fmul a (fsub (Fin 1) f)) c) (fadd b (fmul a (fsub (Fin 1) f))))
   \<and> calculateSwapOutput_f64 (Fin 1000) (Fin 15500000) (Fin 1000000) fee_f64
       = Inr (Fin (4526008097745649 / 70368744177664))
   \<and> toFixed2 (4526008097745649 / 70368744177664) = Hundredths 6432"
proof (intro conjI impI)
  assume h: "1 / 2 ^ 200 \<le> x \<and> x \<le> 2 ^ 200 \<and> 1 / 2 ^ 200 \<le> ri \<and> ri \<le> 2 ^ 200
      \<and> 1 / 2 ^ 200 \<le> ro \<and> ro \<le> 2 ^ 200"
  have pos: "0 < x" "0 < ri" "0 < ro"
    using h by (meson less_le_trans zero_less_divide_1_iff zero_less_numeral zero_less_power)+
  define e where "e = x * (1 - 3 / 1000)"
  define E where "E = e * ro / (ri + e)"
  have e: "0 < e" "e = x * (997 / 1000)" using pos(1) by (simp_all add: e_def)
  have E: "0 < E" "E < ro"
    using swap_quote_pos[OF e(1) pos(2,3)] swap_quote_less[OF e(1) pos(2,3)] by (simp_all add: E_def)
  from quote_f64_accuracy[of x ri ro] h obtain v where
    v: "calculateSwapOutput_f64 (Fin x) (Fin ri) (Fin ro) fee_f64 = Inr (Fin v)"
       "E * (1 - 1 / 2 ^ 50) \<le> v" "v \<le> E * (1 + 1 / 2 ^ 50)"
    unfolding E_def e(2) by blast
  have "0 < E * (1 - 1 / 2 ^ 50)" using E(1) by simp
  then have v0: "0 < v" using v(2) by linarith
  have "E * (1 + 1 / 2 ^ 50) < ro * (1 + 1 / 2 ^ 50)"
    using E(2) by (intro mult_strict_right_mono) auto
  then have v1: "v < ro * (1 + 1 / 2 ^ 50)" using v(3) by linarith
  show "let effectiveInput = x * (1 - 3 / 1000);
           exact = effectiveInput * ro / (ri + effectiveInput)
       in \<exists>v. calculateSwapOutput_f64 (Fin x) (Fin ri) (Fin ro) fee_f64 = Inr (Fin v)
             \<and> exact * (1 - 1 / 2 ^ 50) \<le> v \<and> v \<le> exact * (1 + 1 / 2 ^ 50)
             \<and> 0 < exact \<and> exact < ro
             \<and> 0 < v \<and> v < ro * (1 + 1 / 2 ^ 50)"
    unfolding Let_def e_def[symmetric] E_def[symmetric]
    using v v0 v1 E by blast
next
  show "calculateSwapOutput_f64 a b c f
       = Inr (fdiv (fmul (fmul a (fsub (Fin 1) f)) c) (fadd b (fmul a (fsub (Fin 1) f))))"
    by (rule quote_f64_unfold)
next
  show "calculateSwapOutput_f64 (Fin 1000) (Fin 15500000) (Fin 1000000) fee_f64
       = Inr (Fin (4526008097745649 / 70368744177664))"
    by (simp only: quote_f64_unfold one_minus_fee f64_evals)
next
  show "toFixed2 (4526008097745649 / 70368744177664) = Hundredths 6432"
    by (simp add: toFixed2_def floor_eq_iff)
qed

theorem quote_f64_formula_accuracy_witness:
  "\<exists>v. calculateSwapOutput_f64 (Fin 1000) (Fin 15500000) (Fin 1000000) fee_f64 = Inr (Fin v)
       \<and> 1000 * (1 - 3 / 1000) * 1000000 / (15500000 + 1000 * (1 - 3 / 1000)) * (1 - 1 / 2 ^ 50) \<le> v
       \<and> v \<le> 1000 * (1 - 3 / 1000) * 1000000 / (15500000 + 1000 * (1 - 3 / 1000)) * (1 + 1 / 2 ^ 50)
       \<and> (0 :: rat) < 1000 * (1 - 3 / 1000) * 1000000 / (15500000 + 1000 * (1 - 3 / 1000))
       \<and> 1000 * (1 - 3 / 1000) * 1000000 / (15500000 + 1000 * (1 - 3 / 1000)) < (1000000 :: rat)
       \<and> 0 < v \<and> v < 1000000 * (1 + 1 / 2 ^ 50)"
proof -
  note t = quote_f64_formula_accuracy [of 1000 15500000 1000000, THEN conjunct1, rule_format]
  have "let effectiveInput = 1000 * (1 - 3 / 1000);
            exact = effectiveInput * 1000000 / (15500000 + effectiveInput)
        in \<exists>v. calculateSwapOutput_f64 (Fin 1000) (Fin 15500000) (Fin 1000000) fee_f64 = Inr (Fin v)
             \<and> exact * (1 - 1 / 2 ^ 50) \<le> v \<and> v \<le> exact * (1 + 1 / 2 ^ 50)
             \<and> 0 < exact \<and> exact < 1000000
             \<and> 0 < v \<and> v < 1000000 * (1 + 1 / 2 ^ 50)"
    by (rule t) simp
  then show ?thesis unfolding Let_def .
qed

text \<open>
  The input \<open>3e25\<close> against the reserves 1000000 and 15500000 returns
  15500000.000000002, above the output reserve; the input \<open>1e30\<close> against the reserves
  1 and 1 returns 1, the output reserve itself.
\<close>

theorem quote_f64_exceeds_reserve:
  "calculateSwapOutput_f64 (Fin 30000000000000000570425344) (Fin 1000000) (Fin 15500000) fee_f64
     = Inr (Fin (8321499136000001 / 536870912))
   \<and> (15500000 :: rat) < 8321499136000001 / 536870912
   \<and> calculateSwapOutput_f64 (Fin 1000000000000000019884624838656) (Fin 1) (Fin 1) fee_f64
     = Inr (Fin 1)"
  by (simp only: quote_f64_unfold one_minus_fee f64_evals) simp




text \<open>
  C3, as the code has it. \<open>calculateSwapOutput\<close> validates nothing and never fails, with
  \<open>InvalidAmount\<close>, \<open>InvalidReserves\<close> or anything else: for every input amount, reserves
  and fee, also an amount or a reserve that is zero or negative, it returns a number,
  finite, infinite or \<open>NaN\<close>.
\<close>

theorem quote_f64_never_fails:
  "calculateSwapOutput_f64 inputAmount inputReserve outputReserve fee \<noteq> Inl e
   \<and> (\<exists>v. calculateSwapOutput_f64 inputAmount inputReserve outputReserve fee = Inr v)"
  by (simp add: calculateSwapOutput_f64_def Let_def)

theorem quote_f64_never_fails_witness:
  "calculateSwapOutput_f64 (Fin 0) (Fin 0) (Fin 0) fee_f64 \<noteq> Inl InvalidAmount
   \<and> (\<exists>v. calculateSwapOutput_f64 (Fin 0) (Fin 0) (Fin 0) fee_f64 = Inr v)"
  using quote_f64_never_fails [of "Fin 0" "Fin 0" "Fin 0" fee_f64 InvalidAmount] .

text \<open>
  A zero input amount, a zero input reserve and a zero output reserve each give a number,
  not an error.
\<close>

theorem quote_f64_no_validation:
  "calculateSwapOutput_f64 (Fin 0) (Fin 15500000) (Fin 1000000) fee_f64 = Inr (Fin 0)
   \<and> calculateSwapOutput_f64 (Fin 1000) (Fin 0) (Fin 1000000) fee_f64 = Inr (Fin 1000000)
   \<and> calculateSwapOutput_f64 (Fin 1000) (Fin 15500000) (Fin 0) fee_f64 = Inr (Fin 0)"
  by (simp only: quote_f64_unfold one_minus_fee f64_evals)

text \<open>
  The quote need not be finite. Against the pool reserves the amount -15546639.919759277
  has the effective input -15500000: the divisor is zero and the quote \<open>-Infinity\<close>.
  The amount \<open>1e305\<close> overflows in the numerator: the quote is \<open>Infinity\<close>.
\<close>

lemma quote_f64_non_finite:
  "calculateSwapOutput_f64 (Fin (- (4173269376128385 / 268435456))) (Fin 15500000) (Fin 1000000)
      fee_f64 = Inr NInf
   \<and> calculateSwapOutput_f64 (Fin (2565335500811485 * 2 ^ 962)) (Fin 15500000) (Fin 1000000)
      fee_f64 = Inr PInf"
  by (simp only: quote_f64_unfold one_minus_fee f64_evals_non_finite fdiv.simps) simp

section \<open>Failures\<close>

text \<open>
  C7. A call that fails a precondition check leaves the whole state as it was, the
  transaction list included. \<open>mint\<close>, the two swaps, \<open>stake\<close>, \<open>unstake\<close> and
  \<open>claimRewards\<close> throw from their checks only, so whatever they throw, the state is
  unchanged; \<open>burn\<close> throws from its two checks with the state unchanged. In particular
  a sale of more than the liquid balance fails, for a connected wallet with
  \<open>InsufficientBalance\<close>, and a claim with no pending rewards fails, for a connected
  wallet with \<open>NothingToClaim\<close>; a wallet that is not connected fails the connection
  check, which comes first.
\<close>

theorem precondition_failure_leaves_state:
  "(mint projectId amount env st = Threw e st' \<longrightarrow> st' = st)
   \<and> (swapUSDTForTCO2 amount slippage env st = Threw e st' \<longrightarrow> st' = st)
   \<and> (swapTCO2ForUSDT amount slippage env st = Threw e st' \<longrightarrow> st' = st)
   \<and> (stake amount env st = Threw e st' \<longrightarrow> st' = st)
   \<and> (unstake amount env st = Threw e st' \<longrightarrow> st' = st)
   \<and> (claimRewards env st = Threw e st' \<longrightarrow> st' = st)
   \<and> (\<not> connected st \<or> tCO2Balance st < amount \<longrightarrow>
        burn amount reason cid_new date upload env st
          = Threw (if connected st then InsufficientBalance else NotConnected) st)
   \<and> (tCO2Balance st < amount \<longrightarrow>
        swapTCO2ForUSDT amount slippage env st
          = Threw (if connected st then InsufficientBalance else NotConnected) st)
   \<and> (rewards st = 0 \<longrightarrow>
        claimRewards env st = Threw (if connected st then NothingToClaim else NotConnected) st)"
  by (auto simp add: mint_def swapUSDTForTCO2_def swapTCO2ForUSDT_def stake_def unstake_def
        claimRewards_def burn_def calculateSwapOutput_def addTransaction_def Let_def
        split: if_splits jsnum.splits)

theorem precondition_failure_leaves_state_witness:
  "swapTCO2ForUSDT 20 (1 / 10) example_stamp (example_wallet 10 0 0)
     = Threw InsufficientBalance (example_wallet 10 0 0)
   \<and> claimRewards example_stamp (example_wallet 10 0 0)
     = Threw NothingToClaim (example_wallet 10 0 0)
   \<and> burn 20 ''offset'' ''POR-1'' ''2024-01-01'' failing_store example_stamp (example_wallet 10 0 0)
     = Threw InsufficientBalance (example_wallet 10 0 0)
   \<and> swapTCO2ForUSDT 20 (1 / 10) example_stamp initial_state = Threw NotConnected initial_state
   \<and> transactions (example_wallet 10 0 0) = []"
  using precondition_failure_leaves_state
          [of "''proj-1''" 20 example_stamp "example_wallet 10 0 0" InsufficientBalance
              "example_wallet 10 0 0" "1 / 10" "''offset''" "''POR-1''" "''2024-01-01''"
              failing_store]
        precondition_failure_leaves_state
          [of "''proj-1''" 20 example_stamp initial_state NotConnected
              initial_state "1 / 10" "''offset''" "''POR-1''" "''2024-01-01''"
              failing_store]
  by (simp add: example_defs)

text \<open>
  C2, as the code has it. \<open>burn\<close> debits before it uploads. When the upload of the
  certificate is rejected, the call fails with the error of the store, no transaction is
  recorded and no certificate is stored: the transaction list and the retirements are
  what they were. The liquid balance is not: it has been debited by the amount, and
  \<open>totalRetired\<close> raised by it, before the upload, and nothing undoes that.
\<close>

theorem burn_upload_failure_keeps_history:
  "connected st \<and> \<not> tCO2Balance st < amount
     \<and> upload \<lparr>cert_id = cid_new, cert_amount = amount, cert_date = date,
                 cert_wallet = address st, cert_reason = reason, ipfsHash = None\<rparr> = Inl e
   \<longrightarrow> (\<exists>st'. burn amount reason cid_new date upload env st = Threw e st'
          \<and> transactions st' = transactions st
          \<and> retirements st' = retirements st
          \<and> tCO2Balance st' = tCO2Balance st - amount
          \<and> totalRetired st' = totalRetired st + amount
          \<and> stakedBalance st' = stakedBalance st \<and> rewards st' = rewards st)"
  by (simp add: burn_def Let_def)

theorem burn_upload_failure_keeps_history_witness:
  "\<exists>st'. burn 3 ''offset'' ''POR-1'' ''2024-01-01'' failing_store example_stamp
            (example_wallet 10 0 0) = Threw StorageUnavailable st'
      \<and> transactions st' = [] \<and> retirements st' = [] \<and> tCO2Balance st' = 7"
  using burn_upload_failure_keeps_history
          [of "example_wallet 10 0 0" 3 failing_store "''POR-1''" "''2024-01-01''" "''offset''"
              StorageUnavailable example_stamp]
  by (auto simp add: example_defs)

text \<open>
  A wallet holding 10 retires 3 against a store that rejects: the call fails and the
  wallet holds 7.
\<close>

theorem burn_upload_failure_debits:
  "burn 3 ''offset'' ''POR-1'' ''2024-01-01'' failing_store example_stamp (example_wallet 10 0 0)
     = Threw StorageUnavailable ((example_wallet 10 0 0)\<lparr>tCO2Balance := 7, totalRetired := 3\<rparr>)
   \<and> tCO2Balance ((example_wallet 10 0 0)\<lparr>tCO2Balance := 7, totalRetired := 3\<rparr>)
       \<noteq> tCO2Balance (example_wallet 10 0 0)"
  by (simp add: burn_def example_defs Let_def)

text \<open>With the store of the repository the upload never rejects, and \<open>burn\<close> completes.\<close>

lemma burn_with_IPFSService:
  assumes "connected st" "\<not> tCO2Balance st < amount"
  shows "\<exists>tx cert st'. burn amount reason cid_new date (IPFSService_upload r) env st
                          = Returned (tx, cert) st'
           \<and> tCO2Balance st' = tCO2Balance st - amount
           \<and> retirements st' = cert # retirements st
           \<and> transactions st' = tx # transactions st
           \<and> ipfsHash cert = Some (''Qm'' @ r)"
  using assms by (simp add: burn_def IPFSService_upload_def addTransaction_def Let_def)

section \<open>Swaps\<close>

text \<open>
  C9. For a connected wallet and a positive amount (for a sale, one the liquid balance
  covers) the swap returns, whatever the slippage tolerance: the output it returns is
  the quote of \<open>calculateSwapOutput\<close> against the pool, a purchase credits exactly that
  output, a sale debits exactly the amount sold, and the whole outcome is the one the
  tolerance 0 gives.
\<close>

theorem slippage_never_enforced:
  "(connected st \<and> 0 < amount \<longrightarrow>
      (\<exists>tx out st'. calculateSwapOutput amount (USDT getPoolReserves) (tCO2 getPoolReserves)
                       default_fee = Inr (Finite out)
         \<and> swapUSDTForTCO2 amount slippage env st = Returned (tx, out) st'
         \<and> tCO2Balance st' = tCO2Balance st + out
         \<and> swapUSDTForTCO2 amount slippage env st = swapUSDTForTCO2 amount 0 env st))
   \<and> (connected st \<and> 0 < amount \<and> amount \<le> tCO2Balance st \<longrightarrow>
      (\<exists>tx out st'. calculateSwapOutput amount (tCO2 getPoolReserves) (USDT getPoolReserves)
                       default_fee = Inr (Finite out)
         \<and> swapTCO2ForUSDT amount slippage env st = Returned (tx, out) st'
         \<and> tCO2Balance st' = tCO2Balance st - amount
         \<and> swapTCO2ForUSDT amount slippage env st = swapTCO2ForUSDT amount 0 env st))"
proof (intro conjI impI)
  assume h: "connected st \<and> 0 < amount"
  note q = pool_quote_buy(1)[of amount]
  show "\<exists>tx out st'. calculateSwapOutput amount (USDT getPoolReserves) (tCO2 getPoolReserves)
                       default_fee = Inr (Finite out)
         \<and> swapUSDTForTCO2 amount slippage env st = Returned (tx, out) st'
         \<and> tCO2Balance st' = tCO2Balance st + out
         \<and> swapUSDTForTCO2 amount slippage env st = swapUSDTForTCO2 amount 0 env st"
    using h q by (simp add: swapUSDTForTCO2_def addTransaction_def Let_def)
next
  assume h: "connected st \<and> 0 < amount \<and> amount \<le> tCO2Balance st"
  note q = pool_quote_sell(1)[of amount]
  show "\<exists>tx out st'. calculateSwapOutput amount (tCO2 getPoolReserves) (USDT getPoolReserves)
                       default_fee = Inr (Finite out)
         \<and> swapTCO2ForUSDT amount slippage env st = Returned (tx, out) st'
         \<and> tCO2Balance st' = tCO2Balance st - amount
         \<and> swapTCO2ForUSDT amount slippage env st = swapTCO2ForUSDT amount 0 env st"
    using h q by (simp add: swapTCO2ForUSDT_def addTransaction_def Let_def)
qed

theorem slippage_never_enforced_witness:
  "(\<exists>tx st'. swapUSDTForTCO2 1000 0 example_stamp (example_wallet 10 0 0)
       = Returned (tx, 997000000 / 15500997) st' \<and> tCO2Balance st' = 10 + 997000000 / 15500997)
   \<and> (\<exists>tx st'. swapTCO2ForUSDT 10 0 example_stamp (example_wallet 10 0 0)
       = Returned (tx, 15453500000 / 100000997) st' \<and> tCO2Balance st' = 0)"
  using slippage_never_enforced [of "example_wallet 10 0 0" 1000 0 example_stamp]
        slippage_never_enforced [of "example_wallet 10 0 0" 10 0 example_stamp]
  by (auto simp add: example_defs calculateSwapOutput_def getPoolReserves_def default_fee_def
        js_div_def)

text \<open>
  C8, as the code has it. The check of the amount is in the page handler, not in the
  contract: \<open>executeBuyTrade\<close> with a connected wallet and an amount that is \<open>NaN\<close>, zero
  or \<open>\<le> 0\<close> shows the Invalid Amount toast and leaves the wallet as it was, without
  calling the contract. \<open>swapUSDTForTCO2\<close> itself has no check of the amount: called by a
  connected wallet it returns, whatever the amount; the output is the quote of
  \<open>calculateSwapOutput\<close> against the pool, the liquid balance is the former one plus the
  output, and a \<open>buy\<close> transaction is recorded.
\<close>

theorem buy_f64_amount_check_in_handler:
  "(connected_f64 w \<and> ((amount = NaN \<or> amount = Fin 0) \<or> fle amount (Fin 0)) \<longrightarrow>
      executeBuyTrade_f64 amount slippage env w = (InvalidAmountToast, w))
   \<and> (connected_f64 w \<longrightarrow>
        (\<exists>tx out w'. swapUSDTForTCO2_f64 amount slippage env w = Returned_f64 (tx, out) w'
            \<and> calculateSwapOutput_f64 amount (Fin 15500000) (Fin 1000000) fee_f64 = Inr out
            \<and> tCO2Balance_f64 w' = fadd (tCO2Balance_f64 w) out
            \<and> transactions_f64 w' = tx # transactions_f64 w
            \<and> tx_type_f64 (body_f64 tx) = ''buy''))"
  by (auto simp add: executeBuyTrade_f64_def swapUSDTForTCO2_f64_def addTransaction_f64_def
        calculateSwapOutput_f64_def getPoolReserves_def Let_def)

theorem buy_f64_amount_check_in_handler_witness:
  "executeBuyTrade_f64 (Fin (- 1000)) (Fin 1) example_stamp (example_wallet_f64 (Fin 100) (Fin 0))
     = (InvalidAmountToast, example_wallet_f64 (Fin 100) (Fin 0))
   \<and> (\<exists>tx out w'. swapUSDTForTCO2_f64 (Fin (- 1000)) (Fin 1) example_stamp
                     (example_wallet_f64 (Fin 100) (Fin 0)) = Returned_f64 (tx, out) w'
          \<and> transactions_f64 w' = [tx] \<and> tx_type_f64 (body_f64 tx) = ''buy'')"
proof -
  note t = buy_f64_amount_check_in_handler [of "example_wallet_f64 (Fin 100) (Fin 0)" "Fin (- 1000)" "Fin 1" example_stamp]
  have 1: "connected_f64 (example_wallet_f64 (Fin 100) (Fin 0))
      \<and> ((Fin (- 1000) = NaN \<or> Fin (- 1000) = Fin 0) \<or> fle (Fin (- 1000)) (Fin 0))"
    by (simp add: example_wallet_f64_def)
  have 2: "connected_f64 (example_wallet_f64 (Fin 100) (Fin 0))"
    by (simp add: example_wallet_f64_def)
  from t[THEN conjunct1, THEN mp, OF 1] t[THEN conjunct2, THEN mp, OF 2]
  show ?thesis by (auto simp add: example_wallet_f64_def)
qed

text \<open>
  A connected wallet holding 100 buys with the amount -1000: the call does not fail; it
  leaves the wallet with 35.67328169431285 and one recorded transaction.
\<close>

theorem swapUSDTForTCO2_f64_accepts_negative:
  "swapUSDTForTCO2_f64 (Fin (- 1000)) (Fin 1) example_stamp (example_wallet_f64 (Fin 100) (Fin 0))
     \<noteq> Threw_f64 InvalidAmount (example_wallet_f64 (Fin 100) (Fin 0))
   \<and> tCO2Balance_f64 (wallet_after (swapUSDTForTCO2_f64 (Fin (- 1000)) (Fin 1) example_stamp
        (example_wallet_f64 (Fin 100) (Fin 0))))
       = Fin (2510284033524845 / 70368744177664)
   \<and> length (transactions_f64 (wallet_after (swapUSDTForTCO2_f64 (Fin (- 1000)) (Fin 1)
        example_stamp (example_wallet_f64 (Fin 100) (Fin 0))))) = 1"
  by (simp add: swapUSDTForTCO2_f64_def quote_f64_unfold one_minus_fee getPoolReserves_def
      addTransaction_f64_def wallet_after_def example_wallet_f64_def Let_def f64_evals
      del: f64_op_simps)

text \<open>
  A purchase with the amount -15546639.919759277 credits that quote: the wallet is left
  with the balance \<open>-Infinity\<close> and one recorded transaction.
\<close>

lemma swapUSDTForTCO2_f64_credits_infinity:
  "tCO2Balance_f64 (wallet_after (swapUSDTForTCO2_f64 (Fin (- (4173269376128385 / 268435456)))
        (Fin 1) example_stamp (example_wallet_f64 (Fin 100) (Fin 0)))) = NInf
   \<and> length (transactions_f64 (wallet_after (swapUSDTForTCO2_f64
        (Fin (- (4173269376128385 / 268435456))) (Fin 1) example_stamp
        (example_wallet_f64 (Fin 100) (Fin 0))))) = 1"
  using quote_f64_non_finite [THEN conjunct1]
  by (simp add: swapUSDTForTCO2_f64_def getPoolReserves_def
      addTransaction_f64_def wallet_after_def example_wallet_f64_def Let_def)

section \<open>Staking\<close>








section \<open>The balances stay non-negative\<close>

lemma exec_keeps_nonneg:
  assumes "balances_nonneg st" "positive_amount c"
  shows "\<exists>st'. exec c st = Some st' \<and> balances_nonneg st'"
proof (cases c)
  case (Mint projectId amount env)
  then show ?thesis using assms
    by (auto simp add: mint_def addTransaction_def Let_def balances_nonneg_def positive_amount_def)
next
  case (Burn amount reason cid_new date upload env)
  then show ?thesis using assms
    by (auto simp add: burn_def addTransaction_def Let_def balances_nonneg_def positive_amount_def
        split: sum.splits)
next
  case (Buy amount slippage env)
  then have a: "0 < amount" using assms(2) by (simp add: positive_amount_def)
  show ?thesis using Buy assms(1) pool_quote_buy[OF a]
    by (auto simp add: swapUSDTForTCO2_def addTransaction_def Let_def balances_nonneg_def)
next
  case (Sell amount slippage env)
  then have a: "0 < amount" using assms(2) by (simp add: positive_amount_def)
  show ?thesis using Sell assms(1) pool_quote_sell[OF a]
    by (auto simp add: swapTCO2ForUSDT_def addTransaction_def Let_def balances_nonneg_def)
next
  case (Stake amount env)
  then show ?thesis using assms
    by (auto simp add: stake_def addTransaction_def Let_def balances_nonneg_def positive_amount_def)
next
  case (Unstake amount env)
  then show ?thesis using assms
    by (auto simp add: unstake_def addTransaction_def Let_def balances_nonneg_def positive_amount_def)
next
  case (ClaimRewards env)
  then show ?thesis using assms
    by (auto simp add: claimRewards_def addTransaction_def Let_def balances_nonneg_def)
qed

text \<open>
  C4. From a state whose liquid, staked and pending-reward balances are not negative,
  every sequence of calls of \<open>mint\<close>, \<open>burn\<close>, the two swaps, \<open>stake\<close>, \<open>unstake\<close> and
  \<open>claimRewards\<close> with positive amounts runs to its end, and the three balances are not
  negative in the state after each call. A call that fails its connection or balance
  check leaves the state as it was, so the sequences whose calls all meet their
  preconditions are among those covered.
\<close>

theorem run_keeps_balances_nonneg:
  "balances_nonneg st \<and> (\<forall>c \<in> set cs. positive_amount c) \<longrightarrow>
     (\<exists>sts. run cs st = Some sts \<and> length sts = length cs
          \<and> (\<forall>s \<in> set sts. balances_nonneg s))"
proof (induction cs arbitrary: st)
  case Nil
  show ?case by simp
next
  case (Cons c cs)
  show ?case
  proof
    assume h: "balances_nonneg st \<and> (\<forall>c \<in> set (c # cs). positive_amount c)"
    then obtain st' where s: "exec c st = Some st'" "balances_nonneg st'"
      using exec_keeps_nonneg[of st c] by auto
    from h have "\<forall>c \<in> set cs. positive_amount c" by simp
    with s(2) Cons.IH[of st'] obtain sts where
      r: "run cs st' = Some sts" "length sts = length cs" "\<forall>s \<in> set sts. balances_nonneg s"
      by blast
    show "\<exists>sts. run (c # cs) st = Some sts \<and> length sts = length (c # cs)
            \<and> (\<forall>s \<in> set sts. balances_nonneg s)"
      using s r by simp
  qed
qed

theorem run_keeps_balances_nonneg_witness:
  "map_option length (run example_calls (example_wallet 0 0 4)) = Some 7
   \<and> map_option (list_all balances_nonneg) (run example_calls (example_wallet 0 0 4)) = Some True"
proof -
  have 1: "balances_nonneg (example_wallet 0 0 4)"
    by (simp add: balances_nonneg_def example_defs)
  have 2: "\<forall>c \<in> set example_calls. positive_amount c"
    by (simp add: example_calls_def positive_amount_def)
  from run_keeps_balances_nonneg [of "example_wallet 0 0 4" example_calls] 1 2
  obtain sts where "run example_calls (example_wallet 0 0 4) = Some sts"
    "length sts = length example_calls" "\<forall>s \<in> set sts. balances_nonneg s"
    by blast
  then show ?thesis
    by (simp add: example_calls_def list_all_iff)
qed

end
